theory Spec2Isabelle
  imports Complex_Main "HOL-Library.AList" "HOL-Library.Char_ord" "HOL-Library.List_Lexorder"
begin

section \<open>Python values, dictionaries and exceptions\<close>

text \<open>
  The detectors return Python dictionaries whose key set depends on the path taken
  (a failure carries only \<open>success\<close> and \<open>reason\<close>), so a detector result is an
  association list in insertion order. Python floats are modelled as reals; the one
  float that is not a real and that the code can produce, \<open>nan\<close> (numpy's mean and
  variance of an empty array), is a value of its own.
\<close>

datatype pyval =
    PNone
  | PBool bool
  | PInt int
  | PFloat real
  | PNaN
  | PStr string
  | PList "pyval list"
  | PDict "(string \<times> pyval) list"

type_synonym pydict = "(string \<times> pyval) list"

text \<open>
  The exceptions the code can meet. \<open>ExternalError\<close> is an exception of an external
  collaborator (video decoding, the landmark model, the classifier), \<open>OSError\<close> one of
  the file system, both with their message.
\<close>

datatype exn =
    ZeroDivisionError
  | KeyError string
  | TypeError
  | ValueError
  | AttributeError
  | UnicodeEncodeError
  | UnicodeDecodeError
  | OSError string
  | ExternalError string

text \<open>\<open>str(e)\<close>; the messages of the exceptions without an argument are abbreviated.\<close>

fun str_exn :: "exn \<Rightarrow> string" where
  "str_exn ZeroDivisionError = ''integer modulo by zero''"
| "str_exn (KeyError k) = [CHR 0x27] @ k @ [CHR 0x27]"
| "str_exn TypeError = ''unsupported operand type''"
| "str_exn ValueError = ''unknown format code''"
| "str_exn AttributeError = ''object has no attribute''"
| "str_exn UnicodeEncodeError = ''codec cannot encode character''"
| "str_exn UnicodeDecodeError = ''codec cannot decode byte''"
| "str_exn (OSError msg) = msg"
| "str_exn (ExternalError msg) = msg"

text \<open>\<open>d[k]\<close> raises KeyError on a missing key; \<open>d.get(k, default)\<close> does not.\<close>

definition getitem :: "pydict \<Rightarrow> string \<Rightarrow> exn + pyval" where
  "getitem d k = (case map_of d k of None \<Rightarrow> Inl (KeyError k) | Some v \<Rightarrow> Inr v)"

definition get_default :: "pydict \<Rightarrow> string \<Rightarrow> pyval \<Rightarrow> pyval" where
  "get_default d k dflt = (case map_of d k of None \<Rightarrow> dflt | Some v \<Rightarrow> v)"

text \<open>Truth value of a Python object, as \<open>if x:\<close> tests it.\<close>

fun truthy :: "pyval \<Rightarrow> bool" where
  "truthy PNone = False"
| "truthy (PBool b) = b"
| "truthy (PInt i) = (i \<noteq> 0)"
| "truthy (PFloat r) = (r \<noteq> 0)"
| "truthy PNaN = True"
| "truthy (PStr s) = (s \<noteq> [])"
| "truthy (PList xs) = (xs \<noteq> [])"
| "truthy (PDict d) = (d \<noteq> [])"

text \<open>\<open>x < c\<close> for a float literal \<open>c\<close>: numbers compare (a comparison with nan is
  false), anything else raises TypeError.\<close>

fun py_lt :: "pyval \<Rightarrow> real \<Rightarrow> exn + bool" where
  "py_lt (PFloat r) c = Inr (r < c)"
| "py_lt (PInt i) c = Inr (real_of_int i < c)"
| "py_lt (PBool b) c = Inr ((if b then 1 else 0) < c)"
| "py_lt PNaN c = Inr False"
| "py_lt v c = Inl TypeError"

text \<open>\<open>1 - x\<close>.\<close>

fun py_one_minus :: "pyval \<Rightarrow> exn + pyval" where
  "py_one_minus (PFloat r) = Inr (PFloat (1 - r))"
| "py_one_minus (PInt i) = Inr (PInt (1 - i))"
| "py_one_minus (PBool b) = Inr (PInt (1 - (if b then 1 else 0)))"
| "py_one_minus PNaN = Inr PNaN"
| "py_one_minus v = Inl TypeError"

section \<open>Verdicts\<close>

datatype label = FAKE | REAL

text \<open>
  The dictionary every \<open>analyze_video\<close> builds has a fixed key set: \<open>video_path\<close>, the
  family's own key (\<open>blink\<close>, \<open>headpose\<close>, \<open>emotion\<close>, \<open>texture\<close>; here \<open>detector_result\<close>),
  \<open>prediction\<close>, \<open>confidence\<close> and, on a failure, \<open>error\<close>.
\<close>

record verdict =
  video_path :: string
  detector_result :: "pydict option"
  prediction :: "label option"
  confidence :: pyval
  error :: "pyval option"

text \<open>\<open>process_dataset\<close> adds \<open>ground_truth\<close> to each verdict.\<close>

record labeled =
  verdict :: verdict
  ground_truth :: label

section \<open>Dataset metrics\<close>

record confusion =
  TP :: nat
  TN :: nat
  FP :: nat
  FN :: nat

record tally =
  tp :: nat
  tn :: nat
  fp :: nat
  fn :: nat
  correct :: nat

definition tally0 :: tally where
  "tally0 = \<lparr>tp = 0, tn = 0, fp = 0, fn = 0, correct = 0\<rparr>"

text \<open>The body of the metrics loop of \<open>evaluate_texture.py\<close> and \<open>evaluate_emotion.py\<close>.\<close>

definition tally_step :: "tally \<Rightarrow> labeled \<Rightarrow> tally" where
  "tally_step t r =
     (let pred = prediction (verdict r); gt = ground_truth r in
      case pred of
        None \<Rightarrow> t
      | Some p \<Rightarrow>
          (let t = (if p = gt then t\<lparr>correct := correct t + 1\<rparr> else t) in
           if gt = FAKE \<and> p = FAKE then t\<lparr>tp := tp t + 1\<rparr>
           else if gt = REAL \<and> p = REAL then t\<lparr>tn := tn t + 1\<rparr>
           else if gt = REAL \<and> p = FAKE then t\<lparr>fp := fp t + 1\<rparr>
           else if gt = FAKE \<and> p = REAL then t\<lparr>fn := fn t + 1\<rparr>
           else t))"

definition tally_loop :: "labeled list \<Rightarrow> tally" where
  "tally_loop all_results = foldl tally_step tally0 all_results"

datatype summary =
    Accuracy_Only (total_videos: nat) (accuracy: real)
  | Full_Metrics (accuracy: real) (precision: real) (recall: real) (f1_score: real)
      (confusion_matrix: confusion)

text \<open>The summary of \<open>evaluate_texture.py\<close> and \<open>evaluate_emotion.py\<close>.\<close>

definition full_summary :: "labeled list \<Rightarrow> summary" where
  "full_summary all_results =
     (let t = tally_loop all_results;
          total_valid = tp t + tn t + fp t + fn t;
          acc = (if total_valid \<noteq> 0 then real (correct t) / real total_valid * 100 else 0);
          precision = (if tp t + fp t \<noteq> 0 then real (tp t) / real (tp t + fp t) * 100 else 0);
          recall = (if tp t + fn t \<noteq> 0 then real (tp t) / real (tp t + fn t) * 100 else 0);
          f1 = (if precision + recall \<noteq> 0
                then 2 * precision * recall / (precision + recall) else 0)
      in Full_Metrics acc precision recall f1
           \<lparr>TP = tp t, TN = tn t, FP = fp t, FN = fn t\<rparr>)"

text \<open>The summary of \<open>evaluate_blink.py\<close> and \<open>evaluate_headpose.py\<close>: the accuracy
  over all results, with no confusion matrix.\<close>

definition accuracy_summary :: "labeled list \<Rightarrow> summary" where
  "accuracy_summary all_results =
     (let correct = length (filter (\<lambda>r. prediction (verdict r) = Some (ground_truth r)) all_results);
          total = length all_results;
          accuracy = (if total > 0 then real correct / real total * 100 else 0)
      in Accuracy_Only total accuracy)"

subsection \<open>The counts as the specification words them\<close>

definition cell :: "label \<Rightarrow> label \<Rightarrow> labeled list \<Rightarrow> nat" where
  "cell gt p rs = length (filter (\<lambda>r. ground_truth r = gt \<and> prediction (verdict r) = Some p) rs)"

definition spec_TP :: "labeled list \<Rightarrow> nat" where "spec_TP = cell FAKE FAKE"
definition spec_TN :: "labeled list \<Rightarrow> nat" where "spec_TN = cell REAL REAL"
definition spec_FP :: "labeled list \<Rightarrow> nat" where "spec_FP = cell REAL FAKE"
definition spec_FN :: "labeled list \<Rightarrow> nat" where "spec_FN = cell FAKE REAL"

definition spec_correct :: "labeled list \<Rightarrow> nat" where
  "spec_correct rs = length (filter (\<lambda>r. prediction (verdict r) = Some (ground_truth r)) rs)"

definition spec_valid :: "labeled list \<Rightarrow> nat" where
  "spec_valid rs = spec_TP rs + spec_TN rs + spec_FP rs + spec_FN rs"

text \<open>A ratio in percent that is 0 when its denominator is 0.\<close>

definition pct :: "nat \<Rightarrow> nat \<Rightarrow> real" where
  "pct a b = (if b = 0 then 0 else real a / real b * 100)"

definition spec_f1 :: "real \<Rightarrow> real \<Rightarrow> real" where
  "spec_f1 p r = (if p + r = 0 then 0 else 2 * p * r / (p + r))"

section \<open>Detectors\<close>

text \<open>
  Video decoding, the landmark model and the texture classifier are outside the code
  under study: a video is the list of its decoded frames, and a frame is what the
  external model reports on it (no face, a measurement, or an exception it raises).
\<close>

datatype 'm frame = NoFace | Face 'm | Throws string

text \<open>numpy's \<open>mean\<close>, \<open>var\<close> and \<open>std\<close> (population variance) on a non-empty array; on an
  empty one numpy returns nan, which each caller below writes out.\<close>

definition mean :: "real list \<Rightarrow> real" where
  "mean xs = sum_list xs / real (length xs)"

definition variance :: "real list \<Rightarrow> real" where
  "variance xs = mean (map (\<lambda>x. (x - mean xs)\<^sup>2) xs)"

definition std :: "real list \<Rightarrow> real" where
  "std xs = sqrt (variance xs)"

text \<open>\<open>suspicious = True; reasons.append(r)\<close> under a condition.\<close>

definition flag :: "bool \<Rightarrow> string \<Rightarrow> bool \<times> string list \<Rightarrow> bool \<times> string list" where
  "flag c r sr = (if c then (True, snd sr @ [r]) else sr)"

subsection \<open>\<open>blink_detector.py\<close>\<close>

definition EAR_THRESHOLD :: real where "EAR_THRESHOLD = 0.25"
definition CONSEC_FRAMES :: nat where "CONSEC_FRAMES = 2"

record blink_state =
  blink_count :: nat
  counter :: nat
  frame_count :: int
  processed_frames :: int
  ear_history :: "real list"
  debug_frames_saved :: nat

definition blink_init :: blink_state where
  "blink_init = \<lparr>blink_count = 0, counter = 0, frame_count = 0, processed_frames = 0,
                  ear_history = [], debug_frames_saved = 0\<rparr>"

text \<open>\<open>deque(maxlen=n).append(x)\<close>\<close>

definition deque_append :: "nat \<Rightarrow> 'a list \<Rightarrow> 'a \<Rightarrow> 'a list" where
  "deque_append maxlen h x = drop (length (h @ [x]) - maxlen) (h @ [x])"

text \<open>The blink detection of one measured frame (the \<open>if ear < EAR_THRESHOLD\<close> block).\<close>

definition blink_detect :: "real \<Rightarrow> blink_state \<Rightarrow> blink_state" where
  "blink_detect ear s =
     (if ear < EAR_THRESHOLD then s\<lparr>counter := counter s + 1\<rparr>
      else (if counter s \<ge> CONSEC_FRAMES then s\<lparr>blink_count := blink_count s + 1\<rparr> else s)
             \<lparr>counter := 0\<rparr>)"

text \<open>The loop body on a sampled frame with a face.\<close>

definition blink_face :: "real \<Rightarrow> blink_state \<Rightarrow> blink_state" where
  "blink_face ear s =
     (let s = s\<lparr>ear_history := deque_append 5 (ear_history s) ear\<rparr>;
          s = blink_detect ear s
      in s\<lparr>debug_frames_saved := debug_frames_saved s + 1,
           processed_frames := processed_frames s + 1\<rparr>)"

fun blink_loop :: "int \<Rightarrow> int \<Rightarrow> real frame list \<Rightarrow> blink_state \<Rightarrow> exn + blink_state" where
  "blink_loop max_frames frame_interval [] s = Inr s"
| "blink_loop max_frames frame_interval (f # fs) s =
     (if \<not> processed_frames s < max_frames then Inr s
      else if frame_interval = 0 then Inl ZeroDivisionError
      else if (frame_count s + 1) mod frame_interval \<noteq> 0
        then blink_loop max_frames frame_interval fs (s\<lparr>frame_count := frame_count s + 1\<rparr>)
      else
        (case f of
           Throws msg \<Rightarrow> Inl (ExternalError msg)
         | NoFace \<Rightarrow>
             blink_loop max_frames frame_interval fs
               (s\<lparr>frame_count := frame_count s + 1, processed_frames := processed_frames s + 1\<rparr>)
         | Face ear \<Rightarrow>
             blink_loop max_frames frame_interval fs
               (blink_face ear (s\<lparr>frame_count := frame_count s + 1\<rparr>))))"

text \<open>\<open>analyze_blink\<close>: the video is \<open>None\<close> when it cannot be opened. The blink rate of a
  run of duration 0 is the integer 0 in the source and the real 0 here.\<close>

definition analyze_blink :: "real frame list option \<Rightarrow> int \<Rightarrow> int \<Rightarrow> exn + pydict" where
  "analyze_blink video max_frames frame_interval =
     (case video of
        None \<Rightarrow> Inr [(''success'', PBool False), (''reason'', PStr ''cannot_open_video'')]
      | Some frames \<Rightarrow>
          (case blink_loop max_frames frame_interval frames blink_init of
             Inl e \<Rightarrow> Inl e
           | Inr s \<Rightarrow>
               if ear_history s = [] then
                 Inr [(''success'', PBool False), (''reason'', PStr ''no_faces_detected'')]
               else
                 (let avg_ear = mean (ear_history s);
                      std_ear = std (ear_history s);
                      fps = 30;
                      duration_seconds = real_of_int (processed_frames s * frame_interval) / fps;
                      blink_rate_per_minute =
                        (if duration_seconds > 0
                         then (real (blink_count s) / duration_seconds) * 60 else 0);
                      sr = (False, []);
                      sr = (if blink_rate_per_minute < 5 then flag True ''low_blink_rate'' sr
                            else if blink_rate_per_minute > 50 then flag True ''high_blink_rate'' sr
                            else sr);
                      sr = flag (std_ear < 0.008) ''low_ear_variance'' sr;
                      sr = flag (avg_ear < 0.12 \<or> avg_ear > 0.38) ''abnormal_ear'' sr
                  in Inr [(''success'', PBool True),
                          (''blink_count'', PInt (int (blink_count s))),
                          (''blink_rate_per_minute'', PFloat blink_rate_per_minute),
                          (''avg_ear'', PFloat avg_ear),
                          (''std_ear'', PFloat std_ear),
                          (''processed_frames'', PInt (processed_frames s)),
                          (''debug_frames_saved'', PInt (int (debug_frames_saved s))),
                          (''suspicious'', PBool (fst sr)),
                          (''reasons'', PList (map PStr (snd sr)))])))"

subsection \<open>\<open>headpose_detector.py\<close>\<close>

record landmarks =
  nose :: "real \<times> real"
  left_eye :: "real \<times> real"
  right_eye :: "real \<times> real"

record headpose_state =
  pitch_vals :: "real list"
  yaw_vals :: "real list"
  roll_vals :: "real list"
  debug_frame_id :: int
  total_frames :: int

definition headpose_init :: headpose_state where
  "headpose_init = \<lparr>pitch_vals = [], yaw_vals = [], roll_vals = [], debug_frame_id = 0,
                     total_frames = 0\<rparr>"

definition arctan2 :: "real \<Rightarrow> real \<Rightarrow> real" where
  "arctan2 y x =
     (if x > 0 then arctan (y / x)
      else if x < 0 \<and> y \<ge> 0 then arctan (y / x) + pi
      else if x < 0 then arctan (y / x) - pi
      else if y > 0 then pi / 2
      else if y < 0 then - pi / 2
      else 0)"

definition headpose_face :: "bool \<Rightarrow> int \<Rightarrow> landmarks \<Rightarrow> headpose_state \<Rightarrow> headpose_state" where
  "headpose_face save_debug max_debug_frames face s =
     (let dx = fst (right_eye face) - fst (left_eye face);
          dy = snd (right_eye face) - snd (left_eye face);
          roll = arctan2 dy dx;
          yaw = fst (nose face) - 0.5;
          pitch = snd (nose face) - 0.5;
          s = s\<lparr>pitch_vals := pitch_vals s @ [pitch], yaw_vals := yaw_vals s @ [yaw],
                roll_vals := roll_vals s @ [roll]\<rparr>
      in if save_debug \<and> debug_frame_id s < max_debug_frames
         then s\<lparr>debug_frame_id := debug_frame_id s + 1\<rparr> else s)"

fun headpose_loop ::
    "bool \<Rightarrow> int \<Rightarrow> landmarks frame list \<Rightarrow> headpose_state \<Rightarrow> exn + headpose_state" where
  "headpose_loop save_debug max_debug_frames [] s = Inr s"
| "headpose_loop save_debug max_debug_frames (f # fs) s =
     (case f of
        Throws msg \<Rightarrow> Inl (ExternalError msg)
      | NoFace \<Rightarrow>
          headpose_loop save_debug max_debug_frames fs (s\<lparr>total_frames := total_frames s + 1\<rparr>)
      | Face face \<Rightarrow>
          headpose_loop save_debug max_debug_frames fs
            (headpose_face save_debug max_debug_frames face
               (s\<lparr>total_frames := total_frames s + 1\<rparr>)))"

text \<open>\<open>np.diff(movements, axis=0)\<close> followed by \<open>np.linalg.norm(diff, axis=1)\<close>.\<close>

definition norm3 :: "real \<times> real \<times> real \<Rightarrow> real \<times> real \<times> real \<Rightarrow> real" where
  "norm3 a b = (case a of (p, y, r) \<Rightarrow> case b of (p', y', r') \<Rightarrow>
     sqrt ((p' - p)\<^sup>2 + (y' - y)\<^sup>2 + (r' - r)\<^sup>2))"

definition speeds :: "(real \<times> real \<times> real) list \<Rightarrow> real list" where
  "speeds movements = map (\<lambda>(a, b). norm3 a b) (zip movements (tl movements))"

text \<open>A float that may be nan: \<open>None\<close> is nan, and every comparison with nan is false.\<close>

definition nan_if_empty :: "(real list \<Rightarrow> real) \<Rightarrow> real list \<Rightarrow> real option" where
  "nan_if_empty f xs = (if xs = [] then None else Some (f xs))"

definition nan_lt :: "real option \<Rightarrow> real \<Rightarrow> bool" where
  "nan_lt v c = (case v of None \<Rightarrow> False | Some x \<Rightarrow> x < c)"

definition nan_gt :: "real option \<Rightarrow> real \<Rightarrow> bool" where
  "nan_gt v c = (case v of None \<Rightarrow> False | Some x \<Rightarrow> x > c)"

definition py_float :: "real option \<Rightarrow> pyval" where
  "py_float v = (case v of None \<Rightarrow> PNaN | Some x \<Rightarrow> PFloat x)"

definition analyze_headpose ::
    "landmarks frame list option \<Rightarrow> bool \<Rightarrow> int \<Rightarrow> exn + pydict" where
  "analyze_headpose video save_debug max_debug_frames =
     (case video of
        None \<Rightarrow> Inr [(''success'', PBool False), (''reason'', PStr ''cannot_open_video'')]
      | Some frames \<Rightarrow>
          (case headpose_loop save_debug max_debug_frames frames headpose_init of
             Inl e \<Rightarrow> Inl e
           | Inr s \<Rightarrow>
               if length (pitch_vals s) = 0 then
                 Inr [(''success'', PBool False), (''reason'', PStr ''no_face_detected'')]
               else
                 (let pitch = pitch_vals s; yaw = yaw_vals s; roll = roll_vals s;
                      movements = zip pitch (zip yaw roll);
                      speed = speeds movements;
                      speed_variance = nan_if_empty variance speed;
                      avg_speed = nan_if_empty mean speed;
                      pose_variance = variance pitch + variance yaw + variance roll;
                      sr = (False, []);
                      sr = flag (nan_lt speed_variance 0.000001) ''too_smooth_motion'' sr;
                      sr = flag (nan_gt speed_variance 0.01) ''jittery_motion'' sr
                  in Inr [(''success'', PBool True),
                          (''frames_analyzed'', PInt (int (length pitch))),
                          (''total_video_frames'', PInt (total_frames s)),
                          (''avg_pitch'', PFloat (mean pitch)),
                          (''avg_yaw'', PFloat (mean yaw)),
                          (''avg_roll'', PFloat (mean roll)),
                          (''pose_variance'', PFloat pose_variance),
                          (''avg_speed'', py_float avg_speed),
                          (''speed_variance'', py_float speed_variance),
                          (''debug_frames_saved'', PInt (debug_frame_id s)),
                          (''suspicious'', PBool (fst sr)),
                          (''reasons'', PList (map PStr (snd sr)))])))"

subsection \<open>\<open>texture_detector.py\<close>\<close>

definition FRAME_SKIP :: int where "FRAME_SKIP = 5"
definition THRESHOLD :: real where "THRESHOLD = 0.5"

text \<open>A sampled frame gives one classifier score per detected face. A video that cannot
  be opened reads as a video without frames (\<open>cap.read()\<close> returns no frame).\<close>

datatype texture_frame = Scores "real list" | Raises string

fun texture_loop :: "texture_frame list \<Rightarrow> int \<Rightarrow> real list \<Rightarrow> exn + real list" where
  "texture_loop [] frame_id scores = Inr scores"
| "texture_loop (f # fs) frame_id scores =
     (if frame_id mod FRAME_SKIP = 0 then
        (case f of
           Raises msg \<Rightarrow> Inl (ExternalError msg)
         | Scores preds \<Rightarrow> texture_loop fs (frame_id + 1) (scores @ preds))
      else texture_loop fs (frame_id + 1) scores)"

definition fake_ratio_of :: "real list \<Rightarrow> real" where
  "fake_ratio_of scores = mean (map (\<lambda>s. if s > THRESHOLD then 1 else 0) scores)"

definition analyze_texture :: "string \<Rightarrow> texture_frame list \<Rightarrow> pydict" where
  "analyze_texture path frames =
     (let result = [(''success'', PBool False), (''video_path'', PStr path),
                    (''frames_analyzed'', PInt 0), (''fake_ratio'', PInt 0),
                    (''avg_score'', PInt 0), (''frame_scores'', PList [])]
      in case texture_loop frames 0 [] of
           Inl e \<Rightarrow> AList.update ''reason'' (PStr (str_exn e)) result
         | Inr scores \<Rightarrow>
             if length scores = 0 then
               AList.update ''reason'' (PStr ''no_faces_detected'') result
             else
               (let avg_score = mean scores;
                    fake_ratio = fake_ratio_of scores
                in AList.update ''frame_scores'' (PList (map PFloat scores))
                     (AList.update ''avg_score'' (PFloat avg_score)
                        (AList.update ''fake_ratio'' (PFloat fake_ratio)
                           (AList.update ''frames_analyzed'' (PInt (int (length scores)))
                              (AList.update ''success'' (PBool True) result))))))"

subsection \<open>The detector result of the specification's data model\<close>

text \<open>
  \<open>DetectorResult = {success, reason, metrics: mapping<string, number>, suspicious,
  reasons}\<close>: the views of a returned dictionary. A key that is absent reads as false
  (or empty); the metrics are the entries whose value is a number.
\<close>

fun is_number :: "pyval \<Rightarrow> bool" where
  "is_number (PInt i) = True"
| "is_number (PFloat r) = True"
| "is_number PNaN = True"
| "is_number v = False"

definition success_of :: "pydict \<Rightarrow> bool" where
  "success_of d = truthy (get_default d ''success'' (PBool False))"

definition suspicious_of :: "pydict \<Rightarrow> bool" where
  "suspicious_of d = truthy (get_default d ''suspicious'' (PBool False))"

definition reasons_of :: "pydict \<Rightarrow> pyval list" where
  "reasons_of d = (case map_of d ''reasons'' of Some (PList rs) \<Rightarrow> rs | _ \<Rightarrow> [])"

definition metrics_of :: "pydict \<Rightarrow> pydict" where
  "metrics_of d = filter (\<lambda>kv. is_number (snd kv)) d"

section \<open>Per-video decision wrappers\<close>

text \<open>
  Each \<open>analyze_video\<close> calls its detector inside \<open>try\<close>; the detector is the
  parameter \<open>detector\<close> here (a function from the video's path to the dictionary it
  returns, or to the exception it raises), so that the wrapper is modelled on every
  dictionary it can receive.
\<close>

definition verdict0 :: "string \<Rightarrow> verdict" where
  "verdict0 p = \<lparr>video_path = p, detector_result = None, prediction = None,
                 confidence = PInt 0, error = None\<rparr>"

text \<open>\<open>except Exception as e: results["error"] = str(e)\<close>\<close>

definition caught :: "verdict \<Rightarrow> exn \<Rightarrow> verdict" where
  "caught v e = v\<lparr>error := Some (PStr (str_exn e))\<rparr>"

text \<open>\<open>evaluate_blink.py\<close>\<close>

definition blink_analyze_video :: "(string \<Rightarrow> exn + pydict) \<Rightarrow> string \<Rightarrow> verdict" where
  "blink_analyze_video detector p =
     (let results = verdict0 p in
      case detector p of
        Inl e \<Rightarrow> caught results e
      | Inr blink_result \<Rightarrow>
          (case getitem blink_result ''success'' of
             Inl e \<Rightarrow> caught results e
           | Inr ok \<Rightarrow>
               if truthy ok then
                 (let results = results\<lparr>detector_result := Some blink_result\<rparr> in
                  case getitem blink_result ''suspicious'' of
                    Inl e \<Rightarrow> caught results e
                  | Inr s \<Rightarrow>
                      if truthy s
                      then results\<lparr>prediction := Some FAKE, confidence := PFloat 0.8\<rparr>
                      else results\<lparr>prediction := Some REAL, confidence := PFloat 0.9\<rparr>)
               else results))"

text \<open>\<open>evaluate_headpose.py\<close>\<close>

definition headpose_analyze_video :: "(string \<Rightarrow> exn + pydict) \<Rightarrow> string \<Rightarrow> verdict" where
  "headpose_analyze_video detector p =
     (let results = verdict0 p in
      case detector p of
        Inl e \<Rightarrow> caught results e
      | Inr hp_result \<Rightarrow>
          (case getitem hp_result ''success'' of
             Inl e \<Rightarrow> caught results e
           | Inr ok \<Rightarrow>
               if truthy ok then
                 (let results = results\<lparr>detector_result := Some hp_result\<rparr> in
                  case getitem hp_result ''suspicious'' of
                    Inl e \<Rightarrow> caught results e
                  | Inr s \<Rightarrow>
                      if truthy s
                      then results\<lparr>prediction := Some FAKE, confidence := PFloat 0.8\<rparr>
                      else results\<lparr>prediction := Some REAL, confidence := PFloat 0.9\<rparr>)
               else results))"

text \<open>\<open>evaluate_emotion.py\<close>; the detector it imports, \<open>emotion_detector.py\<close>, is a
  parameter like the others.\<close>

definition emotion_analyze_video :: "(string \<Rightarrow> exn + pydict) \<Rightarrow> string \<Rightarrow> verdict" where
  "emotion_analyze_video detector p =
     (let result = verdict0 p in
      case detector p of
        Inl e \<Rightarrow> caught result e
      | Inr emotion_result \<Rightarrow>
          (case getitem emotion_result ''success'' of
             Inl e \<Rightarrow> caught result e
           | Inr ok \<Rightarrow>
               if \<not> truthy ok then
                 result\<lparr>error := Some (get_default emotion_result ''reason'' (PStr ''emotion_failed''))\<rparr>
               else
                 (let result = result\<lparr>detector_result := Some emotion_result\<rparr> in
                  case getitem emotion_result ''suspicious'' of
                    Inl e \<Rightarrow> caught result e
                  | Inr s \<Rightarrow>
                      if truthy s
                      then result\<lparr>prediction := Some FAKE, confidence := PFloat 0.85\<rparr>
                      else result\<lparr>prediction := Some REAL, confidence := PFloat 0.80\<rparr>)))"

text \<open>\<open>evaluate_texture.py\<close>\<close>

definition texture_analyze_video :: "(string \<Rightarrow> exn + pydict) \<Rightarrow> string \<Rightarrow> verdict" where
  "texture_analyze_video detector p =
     (let result = verdict0 p in
      case detector p of
        Inl e \<Rightarrow> caught result e
      | Inr tex \<Rightarrow>
          (case getitem tex ''success'' of
             Inl e \<Rightarrow> caught result e
           | Inr ok \<Rightarrow>
               if \<not> truthy ok then
                 result\<lparr>error := Some (get_default tex ''reason'' (PStr ''texture_failed''))\<rparr>
               else
                 (let result = result\<lparr>detector_result := Some tex\<rparr> in
                  case getitem tex ''avg_score'' of
                    Inl e \<Rightarrow> caught result e
                  | Inr avg_score \<Rightarrow>
                      (case py_lt avg_score 0.8 of
                         Inl e \<Rightarrow> caught result e
                       | Inr True \<Rightarrow> result\<lparr>prediction := Some FAKE, confidence := avg_score\<rparr>
                       | Inr False \<Rightarrow>
                           (let result = result\<lparr>prediction := Some REAL\<rparr> in
                            case py_one_minus avg_score of
                              Inl e \<Rightarrow> caught result e
                            | Inr c \<Rightarrow> result\<lparr>confidence := c\<rparr>)))))"

section \<open>Dataset evaluators\<close>

text \<open>
  The four \<open>process_dataset\<close> functions with what they read from and write to their
  environment: the directories they list, the console they print to and the report file
  they write. Nothing in \<open>process_dataset\<close> or in \<open>print_video_details\<close> is inside a
  \<open>try\<close>, so every read or write that can raise is a step that can fail here, in the
  order in which the source takes it.
\<close>

definition video_extensions :: "string list" where
  "video_extensions = [''.mp4'', ''.avi'', ''.mov'', ''.mkv'', ''.flv'']"

text \<open>
  A file name is held as the bytes of its UTF-8 encoding: sorting by bytes is sorting by
  code points, and a suffix test against an ASCII extension is the same on bytes and on
  characters. \<open>lower\<close> is \<open>str.lower\<close> as far as ASCII characters go: it is exact on
  the ASCII letters and on the two characters whose lower case contains an ASCII
  letter, U+212A (bytes E2 84 AA, lower case \<open>k\<close>) and U+0130 (bytes C4 B0, lower case
  \<open>i\<close> followed by U+0307, bytes CC 87); the lower case of every other character has no
  ASCII character and stands here as the character itself.
\<close>

definition lower_char :: "char \<Rightarrow> char" where
  "lower_char c =
     (case map_of (zip ''ABCDEFGHIJKLMNOPQRSTUVWXYZ'' ''abcdefghijklmnopqrstuvwxyz'') c of
        None \<Rightarrow> c
      | Some l \<Rightarrow> l)"

fun lower :: "string \<Rightarrow> string" where
  "lower (a # b # c # cs) =
     (if a = CHR 0xE2 \<and> b = CHR 0x84 \<and> c = CHR 0xAA then CHR ''k'' # lower cs
      else if a = CHR 0xC4 \<and> b = CHR 0xB0 then CHR ''i'' # CHR 0xCC # CHR 0x87 # lower (c # cs)
      else lower_char a # lower (b # c # cs))"
| "lower [a, b] =
     (if a = CHR 0xC4 \<and> b = CHR 0xB0 then [CHR ''i'', CHR 0xCC, CHR 0x87]
      else [lower_char a, lower_char b])"
| "lower [a] = [lower_char a]"
| "lower [] = []"

definition endswith :: "string \<Rightarrow> string \<Rightarrow> bool" where
  "endswith s ext = (length ext \<le> length s \<and> drop (length s - length ext) s = ext)"

text \<open>\<open>os.path.join\<close> and \<open>os.path.basename\<close> on POSIX paths.\<close>

definition path_join :: "string \<Rightarrow> string \<Rightarrow> string" where
  "path_join a b =
     (if b \<noteq> [] \<and> hd b = CHR ''/'' then b
      else if a = [] \<or> last a = CHR ''/'' then a @ b
      else a @ ''/'' @ b)"

definition basename :: "string \<Rightarrow> string" where
  "basename p = rev (takeWhile (\<lambda>c. c \<noteq> CHR ''/'') (rev p))"

subsection \<open>The environment of a run\<close>

text \<open>
  What an evaluator finds at a dataset path: nothing (\<open>os.path.exists\<close> is false), a
  directory with the names \<open>os.listdir\<close> returns, or something that exists and on which
  \<open>os.listdir\<close> raises (a regular file, a directory that may not be read), with the
  message of the \<open>OSError\<close>.
\<close>

datatype listing = Missing | Names "string list" | Unlistable string

text \<open>
  \<open>listdir\<close> is the file system as the evaluators list it. \<open>console v\<close> tells whether
  the console can write the text of the value \<open>v\<close> in its encoding (\<open>print\<close> raises
  \<open>UnicodeEncodeError\<close> when it cannot): a text of the program or a file name is a
  \<open>PStr\<close>, a value read from a detector's result is that value. \<open>writable f\<close> tells
  whether the file \<open>f\<close> can be opened for writing and written.
\<close>

record env =
  listdir :: "string \<Rightarrow> listing"
  console :: "pyval \<Rightarrow> bool"
  writable :: "string \<Rightarrow> bool"

text \<open>
  The list comprehension over \<open>sorted(os.listdir(folder))\<close>, guarded by
  \<open>os.path.exists(folder)\<close>.
\<close>

definition collect_videos :: "env \<Rightarrow> string \<Rightarrow> exn + string list" where
  "collect_videos e folder =
     (case listdir e folder of
        Missing \<Rightarrow> Inr []
      | Unlistable msg \<Rightarrow> Inl (OSError msg)
      | Names names \<Rightarrow>
          Inr (map (path_join folder)
                 (filter (\<lambda>f. list_ex (\<lambda>ext. endswith (lower f) ext) video_extensions)
                    (sort names))))"

subsection \<open>Console output\<close>

text \<open>
  A \<open>print\<close> is the list of the pieces of its text that are not fixed ASCII text or
  formatted numbers: file names, the pictographs of \<open>evaluate_texture.py\<close>, the values
  it interpolates. It raises when the console cannot write one of them; fixed ASCII text
  and formatted numbers are taken to be writable on every console. The value of a step is
  the exception it raises, if any.
\<close>

definition say :: "env \<Rightarrow> pyval list \<Rightarrow> exn option" where
  "say e pieces = (if list_all (console e) pieces then None else Some UnicodeEncodeError)"

text \<open>The first exception of a sequence of statements.\<close>

fun first_error :: "exn option list \<Rightarrow> exn option" where
  "first_error [] = None"
| "first_error (step # steps) = (case step of Some x \<Rightarrow> Some x | None \<Rightarrow> first_error steps)"

text \<open>A statement that reads \<open>d[k]\<close> and goes on with the value; one under
  \<open>if k in d\<close>.\<close>

definition need :: "pydict \<Rightarrow> string \<Rightarrow> (pyval \<Rightarrow> exn option) \<Rightarrow> exn option" where
  "need d k use = (case getitem d k of Inl x \<Rightarrow> Some x | Inr v \<Rightarrow> use v)"

definition if_in :: "pydict \<Rightarrow> string \<Rightarrow> (pyval \<Rightarrow> exn option) \<Rightarrow> exn option" where
  "if_in d k use = (case map_of d k of None \<Rightarrow> None | Some v \<Rightarrow> use v)"

text \<open>A value under a float format (\<open>:.1f\<close>, \<open>:.2f\<close>, \<open>:.3f\<close>, \<open>:.4f\<close>): a number is
  formatted, a string raises ValueError, anything else TypeError.\<close>

fun float_format :: "pyval \<Rightarrow> exn option" where
  "float_format (PInt i) = None"
| "float_format (PFloat r) = None"
| "float_format (PBool b) = None"
| "float_format PNaN = None"
| "float_format (PStr s) = Some ValueError"
| "float_format v = Some TypeError"

text \<open>\<open>print(f"... {', '.join(v)}")\<close>: \<open>join\<close> takes the strings of a list, the
  characters of a string or the keys of a dictionary, and raises TypeError on anything
  else; the text is written when each of them can be.\<close>

fun is_str :: "pyval \<Rightarrow> bool" where
  "is_str (PStr s) = True"
| "is_str v = False"

fun say_joined :: "env \<Rightarrow> pyval \<Rightarrow> exn option" where
  "say_joined e (PList xs) = (if list_all is_str xs then say e xs else Some TypeError)"
| "say_joined e (PStr s) = say e [PStr s]"
| "say_joined e (PDict d) = say e (map (\<lambda>kv. PStr (fst kv)) d)"
| "say_joined e v = Some TypeError"

text \<open>\<open>count / total\<close>, as far as it raises (the quotient of two numbers too large for
  a float is left out).\<close>

fun is_num :: "pyval \<Rightarrow> bool" where
  "is_num (PInt i) = True"
| "is_num (PFloat r) = True"
| "is_num (PBool b) = True"
| "is_num PNaN = True"
| "is_num v = False"

definition divide_check :: "pyval \<Rightarrow> pyval \<Rightarrow> exn option" where
  "divide_check a b =
     (if \<not> is_num a \<or> \<not> is_num b then Some TypeError
      else if \<not> truthy b then Some ZeroDivisionError
      else None)"

text \<open>The pictographs of \<open>evaluate_texture.py\<close>, as their UTF-8 bytes.\<close>

definition TEST_TUBE :: string where
  "TEST_TUBE = [CHR 0xF0, CHR 0x9F, CHR 0xA7, CHR 0xAA]"

definition FILE_FOLDER :: string where
  "FILE_FOLDER = [CHR 0xF0, CHR 0x9F, CHR 0x93, CHR 0x81]"

definition CLAPPER_BOARD :: string where
  "CLAPPER_BOARD = [CHR 0xF0, CHR 0x9F, CHR 0x8E, CHR 0xAC]"

definition CHECK_MARK :: string where
  "CHECK_MARK = [CHR 0xE2, CHR 0x9C, CHR 0x85]"

definition CROSS_MARK :: string where
  "CROSS_MARK = [CHR 0xE2, CHR 0x9D, CHR 0x8C]"

definition BAR_CHART :: string where
  "BAR_CHART = [CHR 0xF0, CHR 0x9F, CHR 0x93, CHR 0x8A]"

definition DIRECT_HIT :: string where
  "DIRECT_HIT = [CHR 0xF0, CHR 0x9F, CHR 0x8E, CHR 0xAF]"

definition CHART_INCREASING :: string where
  "CHART_INCREASING = [CHR 0xF0, CHR 0x9F, CHR 0x93, CHR 0x88]"

definition MAGNIFYING_GLASS :: string where
  "MAGNIFYING_GLASS = [CHR 0xF0, CHR 0x9F, CHR 0x94, CHR 0x8D]"

definition FLOPPY_DISK :: string where
  "FLOPPY_DISK = [CHR 0xF0, CHR 0x9F, CHR 0x92, CHR 0xBE]"

subsection \<open>\<open>print_video_details\<close>\<close>

text \<open>
  Each \<open>print_video_details\<close> prints the file name, then, when \<open>result.get(family)\<close> is
  truthy (a detector result that is not the empty dictionary), the fields of the
  detector's result, each read with \<open>d[k]\<close>.
\<close>

text \<open>\<open>evaluate_blink.py\<close>\<close>

definition blink_print_video_details :: "env \<Rightarrow> string \<Rightarrow> labeled \<Rightarrow> exn option" where
  "blink_print_video_details e filename r =
     first_error
       [say e [PStr filename],
        case detector_result (verdict r) of
          None \<Rightarrow> None
        | Some blink \<Rightarrow>
            if blink = [] then None
            else first_error
              [need blink ''suspicious'' (\<lambda>s.
                 if truthy s then need blink ''reasons'' (say_joined e) else None),
               need blink ''blink_count'' (\<lambda>v. say e [v]),
               need blink ''blink_rate_per_minute'' float_format,
               need blink ''avg_ear'' float_format,
               need blink ''std_ear'' float_format]]"

text \<open>\<open>evaluate_headpose.py\<close>\<close>

definition headpose_print_video_details :: "env \<Rightarrow> string \<Rightarrow> labeled \<Rightarrow> exn option" where
  "headpose_print_video_details e filename r =
     first_error
       [say e [PStr filename],
        case detector_result (verdict r) of
          None \<Rightarrow> None
        | Some hp \<Rightarrow>
            if hp = [] then None
            else first_error
              [need hp ''suspicious'' (\<lambda>s.
                 if truthy s then need hp ''reasons'' (say_joined e) else None),
               if_in hp ''avg_pitch'' float_format,
               if_in hp ''avg_yaw'' float_format,
               if_in hp ''avg_roll'' float_format,
               if_in hp ''pose_variance'' float_format]]"

text \<open>\<open>evaluate_emotion.py\<close>; \<open>.items()\<close> raises AttributeError on a value that is
  not a dictionary.\<close>

definition emotion_print_video_details :: "env \<Rightarrow> string \<Rightarrow> labeled \<Rightarrow> exn option" where
  "emotion_print_video_details e filename r =
     first_error
       [say e [PStr filename],
        case detector_result (verdict r) of
          None \<Rightarrow> None
        | Some emotion \<Rightarrow>
            if emotion = [] then None
            else first_error
              [need emotion ''suspicious'' (\<lambda>s.
                 if truthy s then need emotion ''reasons'' (say_joined e) else None),
               need emotion ''emotion_frequency'' (\<lambda>freq.
                 case freq of
                   PDict items \<Rightarrow>
                     first_error
                       (map (\<lambda>item. case item of (emo, count) \<Rightarrow>
                               need emotion ''total_faces'' (\<lambda>total.
                                 first_error [divide_check count total, say e [PStr emo, count]]))
                          items)
                 | _ \<Rightarrow> Some AttributeError),
               need emotion ''dominant_emotion'' (\<lambda>v. say e [v]),
               need emotion ''avg_confidence'' float_format,
               need emotion ''emotion_diversity'' (\<lambda>v. say e [v])]]"

text \<open>\<open>evaluate_texture.py\<close>: the first line carries a check mark or a cross.\<close>

definition texture_print_video_details :: "env \<Rightarrow> string \<Rightarrow> labeled \<Rightarrow> exn option" where
  "texture_print_video_details e filename r =
     (let status = (if prediction (verdict r) = Some (ground_truth r) then CHECK_MARK
                    else CROSS_MARK) in
      first_error
        [say e [PStr status, PStr filename],
         case detector_result (verdict r) of
           None \<Rightarrow> None
         | Some tex \<Rightarrow>
             if tex = [] then None
             else first_error
               [say e [PStr BAR_CHART],
                need tex ''frames_analyzed'' (\<lambda>v. say e [v]),
                need tex ''avg_score'' float_format,
                need tex ''fake_ratio'' float_format]])"

subsection \<open>\<open>process_dataset\<close>\<close>

text \<open>
  The loop over a batch: for each video it prints the name (after \<open>icon\<close>, the
  pictograph of the line, if any), calls \<open>analyze_video\<close>, sets the ground truth and
  calls \<open>print_video_details\<close>. The value is the list of labeled verdicts, or the
  exception that ended the loop.
\<close>

fun run_batch ::
    "env \<Rightarrow> pyval list \<Rightarrow> (string \<Rightarrow> verdict) \<Rightarrow> (string \<Rightarrow> labeled \<Rightarrow> exn option) \<Rightarrow> label \<Rightarrow>
       string list \<Rightarrow> exn + labeled list" where
  "run_batch e icon analyze_video print_video_details gt [] = Inr []"
| "run_batch e icon analyze_video print_video_details gt (p # videos) =
     (let filename = basename p in
      case say e (icon @ [PStr filename]) of
        Some x \<Rightarrow> Inl x
      | None \<Rightarrow>
          (let r = \<lparr>verdict = analyze_video p, ground_truth = gt\<rparr> in
           case print_video_details filename r of
             Some x \<Rightarrow> Inl x
           | None \<Rightarrow>
               (case run_batch e icon analyze_video print_video_details gt videos of
                  Inl x \<Rightarrow> Inl x
                | Inr rs \<Rightarrow> Inr (r # rs))))"

record report =
  timestamp :: string
  summary :: summary
  results :: "labeled list"

text \<open>
  What a run of \<open>process_dataset\<close> leaves: the file it wrote, if any (name and
  contents), and the value it returned (\<open>None\<close> for a bare \<open>return\<close>) or the exception
  that ended it.
\<close>

record run =
  persisted :: "(string \<times> report) option"
  returned :: "exn + labeled list option"

definition raised :: "exn \<Rightarrow> run" where
  "raised x = \<lparr>persisted = None, returned = Inl x\<rparr>"

text \<open>
  The end of each \<open>process_dataset\<close>: the report is written to \<open>output_file\<close>, then a
  line that names the file is printed (\<open>saved\<close>), then the verdicts are returned.
\<close>

definition save :: "env \<Rightarrow> string \<Rightarrow> report \<Rightarrow> pyval list \<Rightarrow> run" where
  "save e output_file output_data saved =
     (if \<not> writable e output_file then raised (OSError output_file)
      else \<lparr>persisted = Some (output_file, output_data),
             returned = (case say e saved of
                           Some x \<Rightarrow> Inl x
                         | None \<Rightarrow> Inr (Some (results output_data)))\<rparr>)"

definition blink_process_dataset ::
    "env \<Rightarrow> (string \<Rightarrow> exn + pydict) \<Rightarrow> string \<Rightarrow> string \<Rightarrow> string \<Rightarrow> string \<Rightarrow> run" where
  "blink_process_dataset e detector now fake_dir real_dir output_file =
     (case collect_videos e fake_dir of
        Inl x \<Rightarrow> raised x
      | Inr fake_videos \<Rightarrow>
     (case collect_videos e real_dir of
        Inl x \<Rightarrow> raised x
      | Inr real_videos \<Rightarrow>
          if length fake_videos + length real_videos = 0
          then \<lparr>persisted = None, returned = Inr None\<rparr>
          else
     (case run_batch e [] (blink_analyze_video detector) (blink_print_video_details e)
             FAKE fake_videos of
        Inl x \<Rightarrow> raised x
      | Inr fake_results \<Rightarrow>
     (case run_batch e [] (blink_analyze_video detector) (blink_print_video_details e)
             REAL real_videos of
        Inl x \<Rightarrow> raised x
      | Inr real_results \<Rightarrow>
          (let all_results = fake_results @ real_results;
               output_data = \<lparr>timestamp = now, summary = accuracy_summary all_results,
                              results = all_results\<rparr>
           in save e output_file output_data [PStr output_file])))))"

definition headpose_process_dataset ::
    "env \<Rightarrow> (string \<Rightarrow> exn + pydict) \<Rightarrow> string \<Rightarrow> string \<Rightarrow> string \<Rightarrow> string \<Rightarrow> run" where
  "headpose_process_dataset e detector now fake_dir real_dir output_file =
     (case collect_videos e fake_dir of
        Inl x \<Rightarrow> raised x
      | Inr fake_videos \<Rightarrow>
     (case collect_videos e real_dir of
        Inl x \<Rightarrow> raised x
      | Inr real_videos \<Rightarrow>
          if length fake_videos + length real_videos = 0
          then \<lparr>persisted = None, returned = Inr None\<rparr>
          else
     (case run_batch e [] (headpose_analyze_video detector) (headpose_print_video_details e)
             FAKE fake_videos of
        Inl x \<Rightarrow> raised x
      | Inr fake_results \<Rightarrow>
     (case run_batch e [] (headpose_analyze_video detector) (headpose_print_video_details e)
             REAL real_videos of
        Inl x \<Rightarrow> raised x
      | Inr real_results \<Rightarrow>
          (let all_results = fake_results @ real_results;
               output_data = \<lparr>timestamp = now, summary = accuracy_summary all_results,
                              results = all_results\<rparr>
           in save e output_file output_data [PStr output_file])))))"

definition emotion_process_dataset ::
    "env \<Rightarrow> (string \<Rightarrow> exn + pydict) \<Rightarrow> string \<Rightarrow> string \<Rightarrow> string \<Rightarrow> string \<Rightarrow> run" where
  "emotion_process_dataset e detector now fake_dir real_dir output_file =
     (case collect_videos e fake_dir of
        Inl x \<Rightarrow> raised x
      | Inr fake_videos \<Rightarrow>
     (case collect_videos e real_dir of
        Inl x \<Rightarrow> raised x
      | Inr real_videos \<Rightarrow>
          if length fake_videos + length real_videos = 0
          then \<lparr>persisted = None, returned = Inr None\<rparr>
          else
     (case run_batch e [] (emotion_analyze_video detector) (emotion_print_video_details e)
             FAKE fake_videos of
        Inl x \<Rightarrow> raised x
      | Inr fake_results \<Rightarrow>
     (case run_batch e [] (emotion_analyze_video detector) (emotion_print_video_details e)
             REAL real_videos of
        Inl x \<Rightarrow> raised x
      | Inr real_results \<Rightarrow>
          (let all_results = fake_results @ real_results;
               output = \<lparr>timestamp = now, summary = full_summary all_results,
                         results = all_results\<rparr>
           in save e output_file output [PStr output_file])))))"

text \<open>
  \<open>evaluate_texture.py\<close> has no exit on an empty dataset; its banner, its counts, its
  lines of the loop, its summary and its last line each carry a pictograph.
\<close>

definition texture_process_dataset ::
    "env \<Rightarrow> (string \<Rightarrow> exn + pydict) \<Rightarrow> string \<Rightarrow> string \<Rightarrow> string \<Rightarrow> string \<Rightarrow> run" where
  "texture_process_dataset e detector now fake_dir real_dir output_file =
     (case say e [PStr TEST_TUBE] of
        Some x \<Rightarrow> raised x
      | None \<Rightarrow>
     (case collect_videos e fake_dir of
        Inl x \<Rightarrow> raised x
      | Inr fake_videos \<Rightarrow>
     (case collect_videos e real_dir of
        Inl x \<Rightarrow> raised x
      | Inr real_videos \<Rightarrow>
     (case say e [PStr FILE_FOLDER] of
        Some x \<Rightarrow> raised x
      | None \<Rightarrow>
     (case run_batch e [PStr CLAPPER_BOARD] (texture_analyze_video detector)
             (texture_print_video_details e) FAKE fake_videos of
        Inl x \<Rightarrow> raised x
      | Inr fake_results \<Rightarrow>
     (case run_batch e [PStr CLAPPER_BOARD] (texture_analyze_video detector)
             (texture_print_video_details e) REAL real_videos of
        Inl x \<Rightarrow> raised x
      | Inr real_results \<Rightarrow>
          (let all_results = fake_results @ real_results;
               output = \<lparr>timestamp = now, summary = full_summary all_results,
                         results = all_results\<rparr>
           in case say e [PStr BAR_CHART, PStr DIRECT_HIT, PStr CHART_INCREASING,
                          PStr MAGNIFYING_GLASS] of
                Some x \<Rightarrow> raised x
              | None \<Rightarrow> save e output_file output [PStr FLOPPY_DISK, PStr output_file])))))))"

text \<open>The \<open>__main__\<close> block of each evaluator script.\<close>

definition blink_main :: "env \<Rightarrow> (string \<Rightarrow> exn + pydict) \<Rightarrow> string \<Rightarrow> run" where
  "blink_main e detector now =
     blink_process_dataset e detector now ''fake'' ''real'' ''blink_results.json''"

definition headpose_main :: "env \<Rightarrow> (string \<Rightarrow> exn + pydict) \<Rightarrow> string \<Rightarrow> run" where
  "headpose_main e detector now =
     headpose_process_dataset e detector now ''fake'' ''real'' ''headpose_results.json''"

definition emotion_main :: "env \<Rightarrow> (string \<Rightarrow> exn + pydict) \<Rightarrow> string \<Rightarrow> run" where
  "emotion_main e detector now =
     emotion_process_dataset e detector now ''fake'' ''real'' ''emotion_evaluation.json''"

definition texture_main :: "env \<Rightarrow> (string \<Rightarrow> exn + pydict) \<Rightarrow> string \<Rightarrow> run" where
  "texture_main e detector now =
     texture_process_dataset e detector now ''fake'' ''real'' ''texture_evaluation.json''"

section \<open>Orchestrator\<close>

text \<open>
  \<open>orchestrator.py\<close> runs each evaluator script as a process. What it obtains from
  \<open>json.loads\<close> on the process's output, or from opening a file and \<open>json.load\<close>-ing
  it, is a value (\<open>None\<close> for the JSON \<open>null\<close>) or an exception; \<open>'j\<close> is the type of
  the JSON documents other than \<open>null\<close>.
\<close>

datatype 'j read = Unreadable | Value "'j option"

text \<open>
  \<open>subprocess.run(..., capture_output=True, text=True, check=True)\<close>. The process
  could not be started, and \<open>subprocess.run\<close> raises an \<open>OSError\<close>; or it ran with the
  given return code and what it wrote is not text in the encoding of the locale, and
  \<open>subprocess.run\<close> raises \<open>UnicodeDecodeError\<close> while it reads the output, before it
  looks at the return code; or it ran and exited with a return code, its error output a
  text that the orchestrator's console can write or not, and its output read by
  \<open>json.loads\<close>.
\<close>

datatype 'j task = NotStarted string | Undecodable int | Exited int bool "'j read"

definition PY_GLOBAL :: string where
  "PY_GLOBAL = ''python''"

definition PY_VENV :: string where
  "PY_VENV = ''venv'' @ [CHR 0x5C] @ ''Scripts'' @ [CHR 0x5C] @ ''python.exe''"

definition SCRIPTS :: "(string \<times> string \<times> string) list" where
  "SCRIPTS = [(''emotion'', PY_GLOBAL, ''evaluate_emotion.py''),
              (''blink'', PY_VENV, ''evaluate_blink.py''),
              (''headpose'', PY_VENV, ''evaluate_headpose.py''),
              (''texture'', PY_VENV, ''evaluate_texture.py'')]"

text \<open>The file \<open>run_detector\<close> falls back to.\<close>

definition fallback_file :: "string \<Rightarrow> string" where
  "fallback_file name =
     (if name = ''emotion'' then ''emotion_evaluation.json'' else name @ ''_evaluation.json'')"

text \<open>
  \<open>run_detector\<close>: \<open>spawn\<close> gives what running an interpreter on a script results in, and
  \<open>files\<close> what reading a file as JSON results in. The handler of \<open>CalledProcessError\<close>
  prints the error output of the process before it returns; an exception other than
  \<open>CalledProcessError\<close> and \<open>JSONDecodeError\<close> is not caught.
\<close>

definition run_detector ::
    "(string \<Rightarrow> string \<Rightarrow> 'j task) \<Rightarrow> (string \<Rightarrow> 'j read) \<Rightarrow> string \<Rightarrow> string \<Rightarrow> string \<Rightarrow>
       exn + (string \<times> 'j option)" where
  "run_detector spawn files name python_exec script =
     (case spawn python_exec script of
        NotStarted msg \<Rightarrow> Inl (OSError msg)
      | Undecodable returncode \<Rightarrow> Inl UnicodeDecodeError
      | Exited returncode stderr_prints out \<Rightarrow>
          if returncode \<noteq> 0 then
            (if stderr_prints then Inr (name, None) else Inl UnicodeEncodeError)
          else
            (case out of
               Value v \<Rightarrow> Inr (name, v)
             | Unreadable \<Rightarrow>
                 (case files (fallback_file name) of
                    Value v \<Rightarrow> Inr (name, v)
                  | Unreadable \<Rightarrow> Inr (name, None))))"

text \<open>
  The loop of \<open>main\<close> over the futures, in the order of submission: \<open>finished\<close> holds the
  tasks that completed, with what each returned or raised. Waiting for a task that never
  completes does not return (\<open>None\<close>); an exception of a task is raised again by
  \<open>f.result()\<close>.
\<close>

fun collect ::
    "(string \<times> (exn + string \<times> 'j option)) list \<Rightarrow> (string \<times> string \<times> string) list \<Rightarrow>
       (string \<times> 'j option) list \<Rightarrow> (exn + (string \<times> 'j option) list) option" where
  "collect finished [] combined = Some (Inr combined)"
| "collect finished ((name, python_exec, script) # futures) combined =
     (case map_of finished name of
        None \<Rightarrow> None
      | Some (Inl e) \<Rightarrow> Some (Inl e)
      | Some (Inr (n, res)) \<Rightarrow> collect finished futures (AList.update n res combined))"

text \<open>\<open>main\<close>: \<open>completion\<close> lists the submitted tasks in the order in which the pool
  completes them. The value is the dictionary that is printed (\<open>results\<close> in the source,
  \<open>combined\<close> in the loop above), or the exception that ends \<open>main\<close> with nothing
  printed.\<close>

definition main ::
    "(string \<times> string \<times> string) list \<Rightarrow> (string \<Rightarrow> string \<Rightarrow> 'j task) \<Rightarrow> (string \<Rightarrow> 'j read) \<Rightarrow>
       (exn + (string \<times> 'j option) list) option" where
  "main completion spawn files =
     collect
       (map (\<lambda>(name, python_exec, script).
               (name, run_detector spawn files name python_exec script)) completion)
       SCRIPTS []"

text \<open>The files as the orchestrator reads them after a run of an evaluator on a file
  system \<open>files\<close>.\<close>

definition files_after :: "run \<Rightarrow> (string \<Rightarrow> report read) \<Rightarrow> string \<Rightarrow> report read" where
  "files_after r files f =
     (case persisted r of
        None \<Rightarrow> files f
      | Some (name, rep) \<Rightarrow> if f = name then Value (Some rep) else files f)"

section \<open>Statements of the specification\<close>

text \<open>The four ratios of the specification, on the counts of the specification.\<close>

definition full_metrics_as_specified :: "summary \<Rightarrow> labeled list \<Rightarrow> bool" where
  "full_metrics_as_specified s rs =
     (accuracy s = pct (spec_correct rs) (spec_TP rs + spec_TN rs + spec_FP rs + spec_FN rs) \<and>
      precision s = pct (spec_TP rs) (spec_TP rs + spec_FP rs) \<and>
      recall s = pct (spec_TP rs) (spec_TP rs + spec_FN rs) \<and>
      f1_score s = spec_f1 (precision s) (recall s))"

text \<open>The accuracy over every verdict, those without a prediction included.\<close>

definition accuracy_over_all_videos :: "summary \<Rightarrow> labeled list \<Rightarrow> bool" where
  "accuracy_over_all_videos s rs =
     (s = Accuracy_Only (length rs) (pct (spec_correct rs) (length rs)))"

definition report_of :: "run \<Rightarrow> report option" where
  "report_of r = map_option snd (persisted r)"

text \<open>The four cells of a tally.\<close>

definition cells :: "tally \<Rightarrow> nat \<times> nat \<times> nat \<times> nat" where
  "cells t = (tp t, tn t, fp t, fn t)"

subsection \<open>The blink counter as the specification words it\<close>

text \<open>The EAR measurements of the frames with a face, in order.\<close>

definition ears_of :: "real frame list \<Rightarrow> real list" where
  "ears_of frames = concat (map (\<lambda>f. case f of Face ear \<Rightarrow> [ear] | _ \<Rightarrow> []) frames)"

text \<open>The length of the run of frames with EAR below the threshold that ends a sequence.\<close>

definition closed_run :: "real list \<Rightarrow> nat" where
  "closed_run ears = length (takeWhile (\<lambda>e. e < EAR_THRESHOLD) (rev ears))"

text \<open>The number of frames with EAR at or above the threshold that follow a run of at
  least \<open>CONSEC_FRAMES\<close> frames below it.\<close>

definition spec_blinks :: "real list \<Rightarrow> nat" where
  "spec_blinks ears =
     length (filter (\<lambda>i. EAR_THRESHOLD \<le> ears ! i \<and> CONSEC_FRAMES \<le> closed_run (take i ears))
               [0..<length ears])"

text \<open>The EAR measurements the detector takes from a video: of every
  \<open>frame_interval\<close>-th decoded frame, while fewer than \<open>max_frames\<close> frames were
  processed, those of the frames with a face. \<open>fc\<close> and \<open>pf\<close> count the frames decoded
  and processed so far.\<close>

fun measured_ears :: "int \<Rightarrow> int \<Rightarrow> int \<Rightarrow> int \<Rightarrow> real frame list \<Rightarrow> real list" where
  "measured_ears max_frames frame_interval fc pf [] = []"
| "measured_ears max_frames frame_interval fc pf (f # fs) =
     (if \<not> pf < max_frames then []
      else if (fc + 1) mod frame_interval \<noteq> 0
        then measured_ears max_frames frame_interval (fc + 1) pf fs
      else (case f of Face ear \<Rightarrow> [ear] | _ \<Rightarrow> []) @
             measured_ears max_frames frame_interval (fc + 1) (pf + 1) fs)"

text \<open>The debounce state machine on the pair of the counter and the blink count.\<close>

definition debounce :: "nat \<times> nat \<Rightarrow> real \<Rightarrow> nat \<times> nat" where
  "debounce cb ear =
     (case cb of (c, b) \<Rightarrow>
        if ear < EAR_THRESHOLD then (c + 1, b)
        else (0, if CONSEC_FRAMES \<le> c then b + 1 else b))"

text \<open>The counter and the blink count of a state of the loop.\<close>

definition counts :: "blink_state \<Rightarrow> nat \<times> nat" where
  "counts s = (counter s, blink_count s)"

text \<open>A frame on which the external model raises no exception.\<close>

definition no_throw :: "'m frame \<Rightarrow> bool" where
  "no_throw f = (case f of Throws msg \<Rightarrow> False | _ \<Rightarrow> True)"

subsection \<open>Reading a detector's result\<close>

text \<open>A field of a detector's result.\<close>

definition field :: "exn + pydict \<Rightarrow> string \<Rightarrow> pyval option" where
  "field r k = (case r of Inl e \<Rightarrow> None | Inr d \<Rightarrow> map_of d k)"

text \<open>A video sampled every third frame: two frames that are not looked at, then the
  measurement.\<close>

definition every_third :: "real list \<Rightarrow> real frame list" where
  "every_third ears = concat (map (\<lambda>e. [NoFace, Face 0.1, Face e]) ears)"

text \<open>The number a field holds.\<close>

fun py_real :: "pyval \<Rightarrow> real option" where
  "py_real (PInt i) = Some (real_of_int i)"
| "py_real (PFloat r) = Some r"
| "py_real v = None"

definition num_field :: "pydict \<Rightarrow> string \<Rightarrow> real option" where
  "num_field d k = (case map_of d k of None \<Rightarrow> None | Some v \<Rightarrow> py_real v)"

subsection \<open>The detectors as the wrappers call them\<close>

text \<open>Each wrapper calls its detector on a path, with the detector's default parameters;
  \<open>videos\<close> gives the video stored at a path.\<close>

definition blink_detector :: "(string \<Rightarrow> real frame list option) \<Rightarrow> string \<Rightarrow> exn + pydict" where
  "blink_detector videos p = analyze_blink (videos p) 100 3"

definition headpose_detector ::
    "(string \<Rightarrow> landmarks frame list option) \<Rightarrow> string \<Rightarrow> exn + pydict" where
  "headpose_detector videos p = analyze_headpose (videos p) True 100"

definition texture_detector :: "(string \<Rightarrow> texture_frame list) \<Rightarrow> string \<Rightarrow> exn + pydict" where
  "texture_detector videos p = Inr (analyze_texture p (videos p))"

text \<open>The store in which every video has one frame, with the given scores.\<close>

definition one_frame :: "real list \<Rightarrow> string \<Rightarrow> texture_frame list" where
  "one_frame scores p = [Scores scores]"

subsection \<open>The invariant of a detector result\<close>

text \<open>The invariant of the specification's \<open>DetectorResult\<close>.\<close>

definition detector_result_invariant :: "pydict \<Rightarrow> bool" where
  "detector_result_invariant d =
     ((\<not> success_of d \<longrightarrow> metrics_of d = [] \<and> \<not> suspicious_of d) \<and>
      (reasons_of d \<noteq> [] \<longleftrightarrow> suspicious_of d))"

text \<open>The flag and the reasons agree.\<close>

definition flag_ok :: "bool \<times> string list \<Rightarrow> bool" where
  "flag_ok sr = (fst sr \<longleftrightarrow> snd sr \<noteq> [])"

text \<open>The metrics of the texture detector's initial result.\<close>

definition zero_metrics :: pydict where
  "zero_metrics = [(''frames_analyzed'', PInt 0), (''fake_ratio'', PInt 0), (''avg_score'', PInt 0)]"

subsection \<open>The outcome of a dataset run\<close>

text \<open>A dataset path that is missing or a directory that can be listed, and the videos
  found under it.\<close>

definition listable :: "env \<Rightarrow> string \<Rightarrow> bool" where
  "listable e folder = (case listdir e folder of Unlistable msg \<Rightarrow> False | _ \<Rightarrow> True)"

definition found :: "env \<Rightarrow> string \<Rightarrow> string list" where
  "found e folder = (case collect_videos e folder of Inl x \<Rightarrow> [] | Inr videos \<Rightarrow> videos)"

text \<open>One labeled verdict per video, the fake batch first.\<close>

definition verdicts_of :: "(string \<Rightarrow> verdict) \<Rightarrow> string list \<Rightarrow> string list \<Rightarrow> labeled list" where
  "verdicts_of analyze_video fake_videos real_videos =
     map (\<lambda>p. \<lparr>verdict = analyze_video p, ground_truth = FAKE\<rparr>) fake_videos @
     map (\<lambda>p. \<lparr>verdict = analyze_video p, ground_truth = REAL\<rparr>) real_videos"


text \<open>A run that terminates normally and persists a report on the verdicts \<open>rs\<close>, and a
  run that terminates normally without persisting anything.\<close>

definition reported :: "string \<Rightarrow> string \<Rightarrow> summary \<Rightarrow> labeled list \<Rightarrow> run" where
  "reported output_file now s rs =
     \<lparr>persisted = Some (output_file, \<lparr>timestamp = now, summary = s, results = rs\<rparr>),
      returned = Inr (Some rs)\<rparr>"

definition nothing_reported :: run where
  "nothing_reported = \<lparr>persisted = None, returned = Inr None\<rparr>"


subsection \<open>The outcome of a family task as the specification words it\<close>

text \<open>A family task fails the way the handlers of \<open>run_detector\<close> expect: a non-zero
  exit whose error output the console can write, or an exit with 0 and an output that
  cannot be parsed with no readable fallback file.\<close>

definition task_failed ::
    "(string \<Rightarrow> string \<Rightarrow> 'j task) \<Rightarrow> (string \<Rightarrow> 'j read) \<Rightarrow> string \<times> string \<times> string \<Rightarrow> bool" where
  "task_failed spawn files t =
     (case t of (name, python_exec, script) \<Rightarrow>
        (case spawn python_exec script of
           Exited rc stderr_prints out \<Rightarrow>
             (if rc \<noteq> 0 then stderr_prints
              else out = Unreadable \<and> files (fallback_file name) = Unreadable)
         | _ \<Rightarrow> False))"

text \<open>A family task succeeds with the value \<open>v\<close>: it exits with 0 and \<open>v\<close> is read from
  its output or, if that cannot be parsed, from the fallback file.\<close>

definition task_succeeded ::
    "(string \<Rightarrow> string \<Rightarrow> 'j task) \<Rightarrow> (string \<Rightarrow> 'j read) \<Rightarrow> string \<times> string \<times> string \<Rightarrow>
       'j option \<Rightarrow> bool" where
  "task_succeeded spawn files t v =
     (case t of (name, python_exec, script) \<Rightarrow>
        (case spawn python_exec script of
           Exited rc stderr_prints out \<Rightarrow>
             rc = 0 \<and>
             (out = Value v \<or> (out = Unreadable \<and> files (fallback_file name) = Value v))
         | _ \<Rightarrow> False))"

text \<open>The numbers of null and of populated slots of a combined report.\<close>

definition nulls :: "(string \<times> 'j option) list \<Rightarrow> nat" where
  "nulls rep = length (filter (\<lambda>kv. snd kv = None) rep)"

definition populated :: "(string \<times> 'j option) list \<Rightarrow> nat" where
  "populated rep = length (filter (\<lambda>kv. snd kv \<noteq> None) rep)"

section \<open>Example inputs\<close>

text \<open>
  Three environments in which the console writes every text and every file can be
  written: a dataset with one video in \<open>fake\<close> and one video (and a text file) in
  \<open>real\<close>; a dataset with no directory at all; a regular file at the path \<open>fake\<close>.
  The fourth is the first with a console that writes ASCII text only.
\<close>

definition two_dirs :: env where
  "two_dirs =
     \<lparr>listdir = (\<lambda>folder. if folder = ''fake'' then Names [''a.mp4'']
                          else if folder = ''real'' then Names [''notes.txt'', ''b.MP4'']
                          else Missing),
      console = (\<lambda>v. True), writable = (\<lambda>f. True)\<rparr>"


definition fake_is_a_file :: env where
  "fake_is_a_file =
     \<lparr>listdir = (\<lambda>folder. if folder = ''fake'' then Unlistable ''Not a directory'' else Missing),
      console = (\<lambda>v. True), writable = (\<lambda>f. True)\<rparr>"

definition ascii_console :: env where
  "ascii_console =
     two_dirs\<lparr>console := (\<lambda>v. case v of PStr s \<Rightarrow> list_all (\<lambda>c. of_char c < (128 :: nat)) s
                                  | _ \<Rightarrow> True)\<rparr>"

text \<open>
  The videos of the example dataset as each detector sees them. For the blink detector
  \<open>fake/a.mp4\<close> has three frames, a face with EAR 0.3 on the third, and \<open>real/b.MP4\<close>
  cannot be opened; for the headpose detector \<open>fake/a.mp4\<close> has one frame with a face
  looking straight at the camera; for the texture detector \<open>fake/a.mp4\<close> has one frame
  with one face of score 0.2 and \<open>real/b.MP4\<close> has no frame.
\<close>

definition blink_videos :: "string \<Rightarrow> real frame list option" where
  "blink_videos p = (if p = ''fake/a.mp4'' then Some [NoFace, NoFace, Face 0.3] else None)"

definition still_face :: landmarks where
  "still_face = \<lparr>nose = (0.5, 0.5), left_eye = (0.4, 0.4), right_eye = (0.6, 0.4)\<rparr>"

definition headpose_videos :: "string \<Rightarrow> landmarks frame list option" where
  "headpose_videos p = (if p = ''fake/a.mp4'' then Some [Face still_face] else None)"

definition texture_videos :: "string \<Rightarrow> texture_frame list" where
  "texture_videos p = (if p = ''fake/a.mp4'' then [Scores [0.2]] else [])"

text \<open>The results of the detectors on one-frame videos.\<close>

definition blink_one_frame :: pydict where
  "blink_one_frame =
     [(''success'', PBool True), (''blink_count'', PInt 0), (''blink_rate_per_minute'', PFloat 0),
      (''avg_ear'', PFloat 0.3), (''std_ear'', PFloat 0), (''processed_frames'', PInt 1),
      (''debug_frames_saved'', PInt 1), (''suspicious'', PBool True),
      (''reasons'', PList [PStr ''low_blink_rate'', PStr ''low_ear_variance''])]"

definition headpose_one_frame :: pydict where
  "headpose_one_frame =
     [(''success'', PBool True), (''frames_analyzed'', PInt 1), (''total_video_frames'', PInt 1),
      (''avg_pitch'', PFloat 0), (''avg_yaw'', PFloat 0), (''avg_roll'', PFloat 0),
      (''pose_variance'', PFloat 0), (''avg_speed'', PNaN), (''speed_variance'', PNaN),
      (''debug_frames_saved'', PInt 1), (''suspicious'', PBool False), (''reasons'', PList [])]"

text \<open>The verdicts of the blink evaluator on the example dataset: the fake video is
  found suspicious, the real video cannot be opened.\<close>

definition ex_results :: "labeled list" where
  "ex_results =
     [\<lparr>verdict = (verdict0 ''fake/a.mp4'')
          \<lparr>detector_result := Some blink_one_frame, prediction := Some FAKE,
           confidence := PFloat 0.8\<rparr>,
        ground_truth = FAKE\<rparr>,
      \<lparr>verdict = verdict0 ''real/b.MP4'', ground_truth = REAL\<rparr>]"

text \<open>The verdicts of the texture evaluator on the example dataset: the fake video is
  classified FAKE, the real video has no face.\<close>

definition texture_ex_results :: "labeled list" where
  "texture_ex_results =
     [\<lparr>verdict = (verdict0 ''fake/a.mp4'')
          \<lparr>detector_result :=
             Some [(''success'', PBool True), (''video_path'', PStr ''fake/a.mp4''),
                   (''frames_analyzed'', PInt 1), (''fake_ratio'', PFloat 0),
                   (''avg_score'', PFloat 0.2), (''frame_scores'', PList [PFloat 0.2])],
           prediction := Some FAKE, confidence := PFloat 0.2\<rparr>,
        ground_truth = FAKE\<rparr>,
      \<lparr>verdict = (verdict0 ''real/b.MP4'')\<lparr>error := Some (PStr ''no_faces_detected'')\<rparr>,
        ground_truth = REAL\<rparr>]"

text \<open>The verdicts of the headpose evaluator on the example dataset (the fake video
  shows no motion that is flagged, the real video cannot be opened), and the verdicts on
  it of an evaluator whose detector raises on every video.\<close>

definition headpose_ex_results :: "labeled list" where
  "headpose_ex_results =
     [\<lparr>verdict = (verdict0 ''fake/a.mp4'')
          \<lparr>detector_result := Some headpose_one_frame, prediction := Some REAL,
           confidence := PFloat 0.9\<rparr>,
        ground_truth = FAKE\<rparr>,
      \<lparr>verdict = verdict0 ''real/b.MP4'', ground_truth = REAL\<rparr>]"


text \<open>A detector that succeeds on \<open>real/b.MP4\<close> and cannot open any other video.\<close>

definition det_ex :: "string \<Rightarrow> exn + pydict" where
  "det_ex p = (if p = ''real/b.MP4''
               then Inr [(''success'', PBool True), (''suspicious'', PBool False),
                         (''reasons'', PList []), (''avg_score'', PFloat 0.9)]
               else Inr [(''success'', PBool False), (''reason'', PStr ''cannot_open_video'')])"

text \<open>A detector that raises on every video.\<close>

definition det_raises :: "string \<Rightarrow> exn + pydict" where
  "det_raises p = Inl (ExternalError ''corrupt'')"

definition ex_verdict :: "label option \<Rightarrow> label \<Rightarrow> labeled" where
  "ex_verdict p g = \<lparr>verdict = (verdict0 ''v.mp4'')\<lparr>prediction := p\<rparr>, ground_truth = g\<rparr>"




text \<open>A task that exits with 0 and whose output is not JSON, and a file system without
  readable files.\<close>

definition quiet_spawn :: "string \<Rightarrow> string \<Rightarrow> report task" where
  "quiet_spawn python_exec script = Exited 0 True Unreadable"

definition no_files :: "string \<Rightarrow> report read" where
  "no_files f = Unreadable"

section \<open>Properties of the metrics loop\<close>

lemma tally_loop_snoc: "tally_loop (rs @ [r]) = tally_step (tally_loop rs) r"
  by (simp add: tally_loop_def)

lemma tally_loop_cells:
  "tp (tally_loop rs) = spec_TP rs \<and> tn (tally_loop rs) = spec_TN rs \<and>
   fp (tally_loop rs) = spec_FP rs \<and> fn (tally_loop rs) = spec_FN rs \<and>
   correct (tally_loop rs) = spec_correct rs"
proof (induction rs rule: rev_induct)
  case Nil
  show ?case
    by (simp add: tally_loop_def tally0_def spec_TP_def spec_TN_def spec_FP_def spec_FN_def
        spec_correct_def cell_def)
next
  case (snoc r rs)
  show ?case
  proof (cases "prediction (verdict r)")
    case None
    with snoc show ?thesis
      by (simp add: tally_loop_snoc tally_step_def spec_TP_def spec_TN_def spec_FP_def
          spec_FN_def spec_correct_def cell_def)
  next
    case (Some p)
    with snoc show ?thesis
      by (cases p; cases "ground_truth r")
        (simp_all add: tally_loop_snoc tally_step_def spec_TP_def spec_TN_def spec_FP_def
          spec_FN_def spec_correct_def cell_def)
  qed
qed

lemma spec_valid_filter:
  "spec_valid rs = length (filter (\<lambda>r. prediction (verdict r) \<noteq> None) rs)"
proof (induction rs)
  case Nil
  show ?case
    by (simp add: spec_valid_def spec_TP_def spec_TN_def spec_FP_def spec_FN_def cell_def)
next
  case (Cons r rs)
  then show ?case
    by (cases "prediction (verdict r)"; cases "ground_truth r"; cases "the (prediction (verdict r))")
       (simp_all add: spec_valid_def spec_TP_def spec_TN_def spec_FP_def spec_FN_def cell_def)
qed

lemma length_filter_eq_iff:
  "length (filter P xs) = length xs \<longleftrightarrow> (\<forall>x\<in>set xs. P x)"
proof (induction xs)
  case Nil
  show ?case by simp
next
  case (Cons x xs)
  have "length (filter P xs) \<noteq> Suc (length xs)"
    using length_filter_le [of P xs] by linarith
  with Cons show ?case by auto
qed

lemma confusion_full_summary:
  "confusion_matrix (full_summary rs) =
     \<lparr>TP = spec_TP rs, TN = spec_TN rs, FP = spec_FP rs, FN = spec_FN rs\<rparr>"
  by (simp add: full_summary_def Let_def tally_loop_cells)

lemma full_summary_as_specified: "full_metrics_as_specified (full_summary rs) rs"
  by (simp add: full_metrics_as_specified_def full_summary_def Let_def tally_loop_cells pct_def
      spec_f1_def)

lemma accuracy_summary_over_all: "accuracy_over_all_videos (accuracy_summary rs) rs"
  by (simp add: accuracy_over_all_videos_def accuracy_summary_def Let_def pct_def spec_correct_def)

lemma getitem_Some: "map_of d k = Some v \<Longrightarrow> getitem d k = Inr v"
  by (simp add: getitem_def)

section \<open>Properties of the blink loop\<close>

lemma closed_run_snoc:
  "closed_run (ears @ [e]) = (if e < EAR_THRESHOLD then Suc (closed_run ears) else 0)"
  by (simp add: closed_run_def)

lemma spec_blinks_snoc:
  "spec_blinks (ears @ [e]) =
     spec_blinks ears + (if EAR_THRESHOLD \<le> e \<and> CONSEC_FRAMES \<le> closed_run ears then 1 else 0)"
proof -
  have "filter (\<lambda>i. EAR_THRESHOLD \<le> (ears @ [e]) ! i \<and> CONSEC_FRAMES \<le> closed_run (take i (ears @ [e])))
          [0..<length ears] =
        filter (\<lambda>i. EAR_THRESHOLD \<le> ears ! i \<and> CONSEC_FRAMES \<le> closed_run (take i ears))
          [0..<length ears]"
    by (rule filter_cong) (simp_all add: nth_append)
  then show ?thesis
    by (simp add: spec_blinks_def)
qed

lemma ex1_loop:
  "blink_loop 100 1 (map Face [0.30, 0.20, 0.18, 0.30]) blink_init =
     Inr \<lparr>blink_count = 1, counter = 0, frame_count = 4, processed_frames = 4,
          ear_history = [0.30, 0.20, 0.18, 0.30], debug_frames_saved = 4\<rparr>"
  by (simp add: blink_init_def blink_face_def blink_detect_def deque_append_def
      EAR_THRESHOLD_def CONSEC_FRAMES_def Let_def)

lemma ex2_loop:
  "blink_loop 100 1 (map Face [0.30, 0.20, 0.30]) blink_init =
     Inr \<lparr>blink_count = 0, counter = 0, frame_count = 3, processed_frames = 3,
          ear_history = [0.30, 0.20, 0.30], debug_frames_saved = 3\<rparr>"
  by (simp add: blink_init_def blink_face_def blink_detect_def deque_append_def
      EAR_THRESHOLD_def CONSEC_FRAMES_def Let_def)

lemma ex3_loop:
  "blink_loop 100 3 (every_third [0.30, 0.20, 0.18, 0.30]) blink_init =
     Inr \<lparr>blink_count = 1, counter = 0, frame_count = 12, processed_frames = 4,
          ear_history = [0.30, 0.20, 0.18, 0.30], debug_frames_saved = 4\<rparr>"
  by (simp add: every_third_def blink_init_def blink_face_def blink_detect_def deque_append_def
      EAR_THRESHOLD_def CONSEC_FRAMES_def Let_def)

lemma ex1_blinks:
  "field (analyze_blink (Some (map Face [0.30, 0.20, 0.18, 0.30])) 100 1) ''blink_count'' = Some (PInt 1)"
  unfolding analyze_blink_def field_def option.case ex1_loop sum.case
  by (simp add: Let_def)

lemma ex2_blinks:
  "field (analyze_blink (Some (map Face [0.30, 0.20, 0.30])) 100 1) ''blink_count'' = Some (PInt 0)"
  unfolding analyze_blink_def field_def option.case ex2_loop sum.case
  by (simp add: Let_def)

lemma ex3_blinks:
  "field (analyze_blink (Some (every_third [0.30, 0.20, 0.18, 0.30])) 100 3) ''blink_count'' = Some (PInt 1)"
  unfolding analyze_blink_def field_def option.case ex3_loop sum.case
  by (simp add: Let_def)

section \<open>Properties of the texture aggregation\<close>

lemma sum_indicator:
  "sum_list (map (\<lambda>s. if P s then 1 else 0) xs) = real (length (filter P xs))"
  by (induction xs) simp_all

lemma fake_ratio_count:
  "fake_ratio_of scores =
     real (length (filter (\<lambda>s. s > THRESHOLD) scores)) / real (length scores)"
  by (simp add: fake_ratio_of_def mean_def sum_indicator)

lemma ratio_grows:
  assumes "c \<le> n" and "0 < n"
  shows "real c / real n \<le> real (Suc c) / real (Suc n)"
proof -
  have "real c * real (Suc n) \<le> real (Suc c) * real n"
    using assms by (simp add: algebra_simps)
  then show ?thesis
    using assms by (simp add: field_simps)
qed

lemma fake_ratio_of_snoc:
  assumes "THRESHOLD < x" and "scores \<noteq> []"
  shows "fake_ratio_of scores \<le> fake_ratio_of (scores @ [x])"
proof -
  have "length (filter (\<lambda>s. s > THRESHOLD) scores) \<le> length scores" by simp
  moreover have "0 < length scores" using assms(2) by simp
  ultimately show ?thesis
    using assms(1) ratio_grows [of "length (filter (\<lambda>s. s > THRESHOLD) scores)" "length scores"]
    by (simp add: fake_ratio_count)
qed

lemma fake_ratio_nonneg: "0 \<le> fake_ratio_of scores"
  by (simp add: fake_ratio_count)

lemma analyze_texture_fake_ratio:
  assumes "texture_loop frames 0 [] = Inr scores"
  shows "num_field (analyze_texture p frames) ''fake_ratio'' =
           Some (if scores = [] then 0 else fake_ratio_of scores)"
  using assms by (simp add: analyze_texture_def num_field_def Let_def update_conv')

lemma mean_bounds:
  assumes "xs \<noteq> []" and "\<forall>x \<in> set xs. 0 \<le> x \<and> x \<le> 1"
  shows "0 \<le> mean xs \<and> mean xs \<le> 1"
proof -
  have "0 \<le> sum_list xs \<and> sum_list xs \<le> real (length xs)"
    using assms(2) by (induction xs) auto
  moreover have "0 < real (length xs)" using assms(1) by simp
  ultimately show ?thesis
    by (simp add: mean_def divide_le_eq)
qed

lemma analyze_texture_success:
  assumes "texture_loop frames 0 [] = Inr scores" and "scores \<noteq> []"
  shows "map_of (analyze_texture p frames) ''success'' = Some (PBool True) \<and>
         map_of (analyze_texture p frames) ''avg_score'' = Some (PFloat (mean scores))"
  using assms by (simp add: analyze_texture_def Let_def update_conv')

lemma texture_verdict:
  assumes "texture_loop (videos p) 0 [] = Inr scores" and "scores \<noteq> []"
  shows "prediction (texture_analyze_video (texture_detector videos) p) =
           Some (if mean scores < 0.8 then FAKE else REAL) \<and>
         confidence (texture_analyze_video (texture_detector videos) p) =
           PFloat (if mean scores < 0.8 then mean scores else 1 - mean scores)"
  using analyze_texture_success [OF assms, of p]
  by (simp add: texture_analyze_video_def texture_detector_def getitem_Some Let_def)

section \<open>Properties of the detector results\<close>

lemma flag_ok_init: "flag_ok (False, [])"
  by (simp add: flag_ok_def)

lemma flag_ok_flag: "flag_ok sr \<Longrightarrow> flag_ok (flag c r sr)"
  by (simp add: flag_ok_def flag_def)

lemma flag_ok_if: "flag_ok x \<Longrightarrow> flag_ok y \<Longrightarrow> flag_ok (if b then x else y)"
  by simp

lemma failure_invariant:
  "detector_result_invariant [(''success'', PBool False), (''reason'', PStr msg)]"
  by (simp add: detector_result_invariant_def success_of_def suspicious_of_def reasons_of_def
      metrics_of_def get_default_def)

lemma blink_success_invariant:
  assumes "flag_ok sr"
  shows "detector_result_invariant
      [(''success'', PBool True), (''blink_count'', a), (''blink_rate_per_minute'', b),
       (''avg_ear'', c), (''std_ear'', e), (''processed_frames'', f),
       (''debug_frames_saved'', g), (''suspicious'', PBool (fst sr)),
       (''reasons'', PList (map PStr (snd sr)))]"
  using assms
  by (simp add: detector_result_invariant_def success_of_def suspicious_of_def reasons_of_def
      get_default_def flag_ok_def)

lemma headpose_success_invariant:
  assumes "flag_ok sr"
  shows "detector_result_invariant
      [(''success'', PBool True), (''frames_analyzed'', a), (''total_video_frames'', b),
       (''avg_pitch'', c), (''avg_yaw'', e), (''avg_roll'', f), (''pose_variance'', g),
       (''avg_speed'', h), (''speed_variance'', i), (''debug_frames_saved'', j),
       (''suspicious'', PBool (fst sr)), (''reasons'', PList (map PStr (snd sr)))]"
  using assms
  by (simp add: detector_result_invariant_def success_of_def suspicious_of_def reasons_of_def
      get_default_def flag_ok_def)

lemma analyze_blink_invariant:
  assumes "analyze_blink video max_frames frame_interval = Inr d"
  shows "detector_result_invariant d"
proof (cases video)
  case None
  with assms show ?thesis
    by (auto simp: analyze_blink_def failure_invariant)
next
  case (Some frames)
  show ?thesis
  proof (cases "blink_loop max_frames frame_interval frames blink_init")
    case (Inl e)
    with assms Some show ?thesis by (simp add: analyze_blink_def)
  next
    case (Inr s)
    show ?thesis
    proof (cases "ear_history s = []")
      case True
      with assms Some Inr show ?thesis
        by (auto simp: analyze_blink_def failure_invariant)
    next
      case False
      with assms Some Inr show ?thesis
        unfolding analyze_blink_def Let_def
        by (auto intro!: blink_success_invariant flag_ok_flag flag_ok_if flag_ok_init)
    qed
  qed
qed

lemma analyze_headpose_invariant:
  assumes "analyze_headpose video save_debug max_debug_frames = Inr d"
  shows "detector_result_invariant d"
proof (cases video)
  case None
  with assms show ?thesis
    by (auto simp: analyze_headpose_def failure_invariant)
next
  case (Some frames)
  show ?thesis
  proof (cases "headpose_loop save_debug max_debug_frames frames headpose_init")
    case (Inl e)
    with assms Some show ?thesis by (simp add: analyze_headpose_def)
  next
    case (Inr s)
    show ?thesis
    proof (cases "pitch_vals s = []")
      case True
      with assms Some Inr show ?thesis
        by (auto simp: analyze_headpose_def failure_invariant)
    next
      case False
      with assms Some Inr show ?thesis
        unfolding analyze_headpose_def Let_def
        by (auto intro!: headpose_success_invariant flag_ok_flag flag_ok_if flag_ok_init)
    qed
  qed
qed

lemma analyze_texture_views:
  "\<not> suspicious_of (analyze_texture p frames) \<and> reasons_of (analyze_texture p frames) = [] \<and>
   (\<not> success_of (analyze_texture p frames) \<longrightarrow> metrics_of (analyze_texture p frames) = zero_metrics) \<and>
   (success_of (analyze_texture p frames) \<longleftrightarrow>
      (\<exists>scores. texture_loop frames 0 [] = Inr scores \<and> scores \<noteq> []))"
  by (cases "texture_loop frames 0 []")
    (simp_all add: analyze_texture_def Let_def suspicious_of_def reasons_of_def success_of_def
      metrics_of_def get_default_def zero_metrics_def)


lemma blink_loop_returns:
  assumes "list_all no_throw frames" and "frame_interval \<noteq> 0"
  shows "\<exists>s'. blink_loop max_frames frame_interval frames s = Inr s'"
  using assms
proof (induction frames arbitrary: s)
  case Nil
  show ?case by simp
next
  case (Cons f frames)
  then show ?case
    by (cases f) (simp_all add: no_throw_def)
qed

lemma headpose_loop_returns:
  assumes "list_all no_throw frames"
  shows "\<exists>s'. headpose_loop save_debug max_debug_frames frames s = Inr s'"
  using assms
proof (induction frames arbitrary: s)
  case Nil
  show ?case by simp
next
  case (Cons f frames)
  then show ?case
    by (cases f) (simp_all add: no_throw_def)
qed

lemma analyze_blink_returns:
  assumes "list_all no_throw frames" and "frame_interval \<noteq> 0"
  shows "\<exists>d. analyze_blink (Some frames) max_frames frame_interval = Inr d"
proof -
  from blink_loop_returns [OF assms] obtain s
    where "blink_loop max_frames frame_interval frames blink_init = Inr s" by blast
  then show ?thesis
    by (simp add: analyze_blink_def Let_def)
qed

lemma analyze_headpose_returns:
  assumes "list_all no_throw frames"
  shows "\<exists>d. analyze_headpose (Some frames) save_debug max_debug_frames = Inr d"
proof -
  from headpose_loop_returns [OF assms] obtain s
    where "headpose_loop save_debug max_debug_frames frames headpose_init = Inr s" by blast
  then show ?thesis
    by (simp add: analyze_headpose_def Let_def)
qed

lemma blink_one_frame_run: "analyze_blink (Some [Face 0.3]) 100 1 = Inr blink_one_frame"
  by (simp add: analyze_blink_def blink_init_def blink_face_def blink_detect_def deque_append_def
      EAR_THRESHOLD_def CONSEC_FRAMES_def Let_def mean_def std_def variance_def flag_def
      blink_one_frame_def)

lemma headpose_one_frame_run:
  "analyze_headpose (Some [Face still_face]) True 100 = Inr headpose_one_frame"
  by (simp add: analyze_headpose_def headpose_init_def headpose_face_def still_face_def arctan2_def
      Let_def mean_def variance_def flag_def speeds_def nan_if_empty_def nan_lt_def nan_gt_def
      py_float_def headpose_one_frame_def)

section \<open>Properties of the blink counter\<close>

lemma counts_blink_face: "counts (blink_face ear s) = debounce (counts s) ear"
  by (simp add: counts_def debounce_def blink_face_def blink_detect_def Let_def)

lemma blink_face_frames:
  "frame_count (blink_face ear s) = frame_count s \<and>
   processed_frames (blink_face ear s) = processed_frames s + 1"
  by (simp add: blink_face_def blink_detect_def Let_def)

lemma counts_updates:
  "counts (s\<lparr>frame_count := a\<rparr>) = counts s"
  "counts (s\<lparr>frame_count := a, processed_frames := b\<rparr>) = counts s"
  by (simp_all add: counts_def)

lemma blink_loop_counts:
  assumes "blink_loop max_frames frame_interval frames s = Inr s'"
  shows "counts s' =
           foldl debounce (counts s)
             (measured_ears max_frames frame_interval (frame_count s) (processed_frames s) frames)"
  using assms
proof (induction frames arbitrary: s)
  case Nil
  then show ?case by simp
next
  case (Cons f frames)
  show ?case
  proof (cases "processed_frames s < max_frames")
    case False
    with Cons.prems show ?thesis by simp
  next
    case True
    note lt = True
    show ?thesis
    proof (cases "frame_interval = 0")
      case True
      with Cons.prems lt show ?thesis by simp
    next
      case False
      note nz = False
      show ?thesis
      proof (cases "(frame_count s + 1) mod frame_interval \<noteq> 0")
        case True
        with Cons.prems lt nz
        have "blink_loop max_frames frame_interval frames (s\<lparr>frame_count := frame_count s + 1\<rparr>) = Inr s'"
          by simp
        from Cons.IH [OF this] True lt show ?thesis
          by (simp add: counts_updates)
      next
        case False
        note sampled = False
        show ?thesis
        proof (cases f)
          case NoFace
          with Cons.prems lt nz sampled
          have "blink_loop max_frames frame_interval frames
                  (s\<lparr>frame_count := frame_count s + 1, processed_frames := processed_frames s + 1\<rparr>) = Inr s'"
            by simp
          from Cons.IH [OF this] NoFace sampled lt show ?thesis
            by (simp add: counts_updates)
        next
          case (Face ear)
          with Cons.prems lt nz sampled
          have "blink_loop max_frames frame_interval frames
                  (blink_face ear (s\<lparr>frame_count := frame_count s + 1\<rparr>)) = Inr s'"
            by simp
          from Cons.IH [OF this] Face sampled lt show ?thesis
            by (simp add: counts_blink_face counts_updates blink_face_frames)
        next
          case (Throws msg)
          with Cons.prems lt nz sampled show ?thesis by simp
        qed
      qed
    qed
  qed
qed

lemma debounce_run:
  "foldl debounce (0, 0) ears = (closed_run ears, spec_blinks ears)"
proof (induction ears rule: rev_induct)
  case Nil
  show ?case by (simp add: closed_run_def spec_blinks_def)
next
  case (snoc e ears)
  then show ?case
    by (simp add: debounce_def closed_run_snoc spec_blinks_snoc)
qed

lemma blink_loop_measured:
  assumes "list_all no_throw frames" and "frame_interval \<noteq> 0"
  shows "\<exists>s. blink_loop max_frames frame_interval frames blink_init = Inr s \<and>
             counter s = closed_run (measured_ears max_frames frame_interval 0 0 frames) \<and>
             blink_count s = spec_blinks (measured_ears max_frames frame_interval 0 0 frames)"
proof -
  from blink_loop_returns [OF assms] obtain s
    where s: "blink_loop max_frames frame_interval frames blink_init = Inr s" by blast
  from blink_loop_counts [OF s]
  have "counts s = (closed_run (measured_ears max_frames frame_interval 0 0 frames),
                    spec_blinks (measured_ears max_frames frame_interval 0 0 frames))"
    by (simp add: blink_init_def counts_def debounce_run)
  with s show ?thesis
    by (simp add: counts_def)
qed


lemma measured_every_frame:
  assumes "pf + int (length frames) \<le> max_frames"
  shows "measured_ears max_frames 1 fc pf frames = ears_of frames"
  using assms
proof (induction frames arbitrary: fc pf)
  case Nil
  show ?case by (simp add: ears_of_def)
next
  case (Cons f frames)
  from Cons.prems have "pf < max_frames" and "(pf + 1) + int (length frames) \<le> max_frames"
    by simp_all
  with Cons.IH [of "pf + 1" "fc + 1"] show ?case
    by (cases f) (simp_all add: ears_of_def)
qed

lemma every_third_measured:
  "measured_ears 100 3 0 0 (every_third [0.30, 0.20, 0.18, 0.30]) = [0.30, 0.20, 0.18, 0.30]"
  by (simp add: every_third_def)

lemma every_third_counts:
  "spec_blinks [0.30, 0.20, 0.18, 0.30] = 1 \<and> closed_run [0.30, 0.20, 0.18, 0.30] = 0"
  by (simp add: spec_blinks_def closed_run_def EAR_THRESHOLD_def CONSEC_FRAMES_def upt_rec)

section \<open>Properties of the dataset evaluators\<close>

lemma say_None: "\<forall>v. console e v \<Longrightarrow> say e pieces = None"
  by (simp add: say_def list_all_iff)

lemma all_str: "list_all is_str (map PStr xs)"
  by (induction xs) simp_all

lemma run_batch_ok:
  assumes "\<forall>v. console e v"
    and "\<And>p. p \<in> set videos \<Longrightarrow> pvd (basename p) \<lparr>verdict = av p, ground_truth = gt\<rparr> = None"
  shows "run_batch e icon av pvd gt videos =
           Inr (map (\<lambda>p. \<lparr>verdict = av p, ground_truth = gt\<rparr>) videos)"
  using assms by (induction videos) (simp_all add: say_None Let_def)

text \<open>The shapes of the results of the three detectors.\<close>

lemma analyze_blink_shape:
  "(\<exists>x. analyze_blink v mf fi = Inl x) \<or>
   (\<exists>msg. analyze_blink v mf fi = Inr [(''success'', PBool False), (''reason'', PStr msg)]) \<or>
   (\<exists>c r a s pf df b rs. analyze_blink v mf fi =
      Inr [(''success'', PBool True), (''blink_count'', c), (''blink_rate_per_minute'', PFloat r),
           (''avg_ear'', PFloat a), (''std_ear'', PFloat s), (''processed_frames'', pf),
           (''debug_frames_saved'', df), (''suspicious'', PBool b),
           (''reasons'', PList (map PStr rs))])"
proof (cases v)
  case None
  then show ?thesis by (simp add: analyze_blink_def)
next
  case (Some frames)
  show ?thesis
  proof (cases "blink_loop mf fi frames blink_init")
    case (Inl x)
    with Some show ?thesis by (simp add: analyze_blink_def)
  next
    case (Inr s)
    show ?thesis
    proof (cases "ear_history s = []")
      case True
      with Some Inr show ?thesis by (simp add: analyze_blink_def)
    next
      case False
      with Some Inr have "\<exists>c r a s pf df b rs. analyze_blink v mf fi =
      Inr [(''success'', PBool True), (''blink_count'', c), (''blink_rate_per_minute'', PFloat r),
           (''avg_ear'', PFloat a), (''std_ear'', PFloat s), (''processed_frames'', pf),
           (''debug_frames_saved'', df), (''suspicious'', PBool b),
           (''reasons'', PList (map PStr rs))]"
        unfolding analyze_blink_def Let_def
        by (simp only: option.case sum.case if_False) (intro exI, rule refl)
      then show ?thesis by blast
    qed
  qed
qed

lemma analyze_headpose_shape:
  "(\<exists>x. analyze_headpose v sd md = Inl x) \<or>
   (\<exists>msg. analyze_headpose v sd md = Inr [(''success'', PBool False), (''reason'', PStr msg)]) \<or>
   (\<exists>n t p y r pv sp sv df b rs. analyze_headpose v sd md =
      Inr [(''success'', PBool True), (''frames_analyzed'', n), (''total_video_frames'', t),
           (''avg_pitch'', PFloat p), (''avg_yaw'', PFloat y), (''avg_roll'', PFloat r),
           (''pose_variance'', PFloat pv), (''avg_speed'', sp), (''speed_variance'', sv),
           (''debug_frames_saved'', df), (''suspicious'', PBool b),
           (''reasons'', PList (map PStr rs))])"
proof (cases v)
  case None
  then show ?thesis by (simp add: analyze_headpose_def)
next
  case (Some frames)
  show ?thesis
  proof (cases "headpose_loop sd md frames headpose_init")
    case (Inl x)
    with Some show ?thesis by (simp add: analyze_headpose_def)
  next
    case (Inr s)
    show ?thesis
    proof (cases "length (pitch_vals s) = 0")
      case True
      with Some Inr show ?thesis by (simp add: analyze_headpose_def)
    next
      case False
      with Some Inr have "\<exists>n t p y r pv sp sv df b rs. analyze_headpose v sd md =
      Inr [(''success'', PBool True), (''frames_analyzed'', n), (''total_video_frames'', t),
           (''avg_pitch'', PFloat p), (''avg_yaw'', PFloat y), (''avg_roll'', PFloat r),
           (''pose_variance'', PFloat pv), (''avg_speed'', sp), (''speed_variance'', sv),
           (''debug_frames_saved'', df), (''suspicious'', PBool b),
           (''reasons'', PList (map PStr rs))]"
        unfolding analyze_headpose_def Let_def
        by (simp only: option.case sum.case if_False) (intro exI, rule refl)
      then show ?thesis by blast
    qed
  qed
qed

lemma analyze_texture_shape:
  "(\<exists>msg. analyze_texture p frames =
      [(''success'', PBool False), (''video_path'', PStr p), (''frames_analyzed'', PInt 0),
       (''fake_ratio'', PInt 0), (''avg_score'', PInt 0), (''frame_scores'', PList []),
       (''reason'', PStr msg)]) \<or>
   (\<exists>n r a xs. analyze_texture p frames =
      [(''success'', PBool True), (''video_path'', PStr p), (''frames_analyzed'', PInt n),
       (''fake_ratio'', PFloat r), (''avg_score'', PFloat a), (''frame_scores'', PList xs)])"
proof (cases "texture_loop frames 0 []")
  case (Inl x)
  then show ?thesis by (simp add: analyze_texture_def)
next
  case (Inr scores)
  then show ?thesis by (cases "scores = []") (simp_all add: analyze_texture_def)
qed

text \<open>When the console writes every text, the printout of an evaluator completes on
  every result of its detector.\<close>

lemma blink_details_quiet:
  assumes c: "\<forall>v. console e v"
  shows "blink_print_video_details e f
           \<lparr>verdict = blink_analyze_video (blink_detector videos) p, ground_truth = gt\<rparr> = None"
  using analyze_blink_shape [of "videos p" 100 3]
proof (elim disjE exE)
  fix x assume "analyze_blink (videos p) 100 3 = Inl x"
  then show ?thesis
    using c by (simp add: blink_print_video_details_def blink_analyze_video_def
        blink_detector_def verdict0_def caught_def say_None)
next
  fix msg
  assume "analyze_blink (videos p) 100 3 = Inr [(''success'', PBool False), (''reason'', PStr msg)]"
  then show ?thesis
    using c by (simp add: blink_print_video_details_def blink_analyze_video_def
        blink_detector_def verdict0_def caught_def say_None getitem_def)
next
  fix cnt r a s pf df b rs
  assume "analyze_blink (videos p) 100 3 =
      Inr [(''success'', PBool True), (''blink_count'', cnt), (''blink_rate_per_minute'', PFloat r),
           (''avg_ear'', PFloat a), (''std_ear'', PFloat s), (''processed_frames'', pf),
           (''debug_frames_saved'', df), (''suspicious'', PBool b),
           (''reasons'', PList (map PStr rs))]"
  then show ?thesis
    using c by (simp add: blink_print_video_details_def blink_analyze_video_def
        blink_detector_def verdict0_def caught_def say_None getitem_def need_def all_str Let_def)
qed

lemma headpose_details_quiet:
  assumes c: "\<forall>v. console e v"
  shows "headpose_print_video_details e f
           \<lparr>verdict = headpose_analyze_video (headpose_detector videos) p, ground_truth = gt\<rparr> = None"
  using analyze_headpose_shape [of "videos p" True 100]
proof (elim disjE exE)
  fix x assume "analyze_headpose (videos p) True 100 = Inl x"
  then show ?thesis
    using c by (simp add: headpose_print_video_details_def headpose_analyze_video_def
        headpose_detector_def verdict0_def caught_def say_None)
next
  fix msg
  assume "analyze_headpose (videos p) True 100 = Inr [(''success'', PBool False), (''reason'', PStr msg)]"
  then show ?thesis
    using c by (simp add: headpose_print_video_details_def headpose_analyze_video_def
        headpose_detector_def verdict0_def caught_def say_None getitem_def)
next
  fix n t pp y r pv sp sv df b rs
  assume "analyze_headpose (videos p) True 100 =
      Inr [(''success'', PBool True), (''frames_analyzed'', n), (''total_video_frames'', t),
           (''avg_pitch'', PFloat pp), (''avg_yaw'', PFloat y), (''avg_roll'', PFloat r),
           (''pose_variance'', PFloat pv), (''avg_speed'', sp), (''speed_variance'', sv),
           (''debug_frames_saved'', df), (''suspicious'', PBool b),
           (''reasons'', PList (map PStr rs))]"
  then show ?thesis
    using c by (simp add: headpose_print_video_details_def headpose_analyze_video_def
        headpose_detector_def verdict0_def caught_def say_None getitem_def need_def if_in_def all_str Let_def)
qed

lemma texture_details_quiet:
  assumes c: "\<forall>v. console e v"
  shows "texture_print_video_details e f
           \<lparr>verdict = texture_analyze_video (texture_detector videos) p, ground_truth = gt\<rparr> = None"
  using analyze_texture_shape [of p "videos p"]
proof (elim disjE exE)
  fix msg
  assume "analyze_texture p (videos p) =
      [(''success'', PBool False), (''video_path'', PStr p), (''frames_analyzed'', PInt 0),
       (''fake_ratio'', PInt 0), (''avg_score'', PInt 0), (''frame_scores'', PList []),
       (''reason'', PStr msg)]"
  then show ?thesis
    using c by (simp add: texture_print_video_details_def texture_analyze_video_def
        texture_detector_def verdict0_def caught_def say_None getitem_def Let_def)
next
  fix n r a xs
  assume "analyze_texture p (videos p) =
      [(''success'', PBool True), (''video_path'', PStr p), (''frames_analyzed'', PInt n),
       (''fake_ratio'', PFloat r), (''avg_score'', PFloat a), (''frame_scores'', PList xs)]"
  then show ?thesis
    using c by (cases "a < 0.8") (simp_all add: texture_print_video_details_def
        texture_analyze_video_def texture_detector_def verdict0_def caught_def say_None
        getitem_def need_def Let_def)
qed

text \<open>The summary of a persisted report, and the run of each evaluator on dataset paths
  that can be listed, with a console that writes every text and a report file that can
  be written.\<close>

lemma listable_found: "listable e d \<Longrightarrow> collect_videos e d = Inr (found e d)"
  by (simp add: listable_def found_def collect_videos_def split: listing.splits)

lemma report_of_save: "report_of (save e out rep line) = Some r \<Longrightarrow> r = rep"
  by (simp add: save_def report_of_def raised_def split: if_splits)

lemma blink_report_summary:
  "report_of (blink_process_dataset e det now fd rd out) = Some rep \<Longrightarrow>
     summary rep = accuracy_summary (results rep)"
  by (auto simp: blink_process_dataset_def report_of_def raised_def save_def Let_def
      split: sum.splits if_splits)

lemma headpose_report_summary:
  "report_of (headpose_process_dataset e det now fd rd out) = Some rep \<Longrightarrow>
     summary rep = accuracy_summary (results rep)"
  by (auto simp: headpose_process_dataset_def report_of_def raised_def save_def Let_def
      split: sum.splits if_splits)

lemma emotion_report_summary:
  "report_of (emotion_process_dataset e det now fd rd out) = Some rep \<Longrightarrow>
     summary rep = full_summary (results rep)"
  by (auto simp: emotion_process_dataset_def report_of_def raised_def save_def Let_def
      split: sum.splits if_splits)

lemma texture_report_summary:
  "report_of (texture_process_dataset e det now fd rd out) = Some rep \<Longrightarrow>
     summary rep = full_summary (results rep)"
  by (auto simp: texture_process_dataset_def report_of_def raised_def save_def Let_def
      split: sum.splits if_splits option.splits)

lemma blink_run:
  assumes c: "\<forall>v. console e v" and w: "writable e out"
    and lf: "listable e fd" and lr: "listable e rd"
    and q: "\<And>p gt. p \<in> set (found e fd @ found e rd) \<Longrightarrow>
              blink_print_video_details e (basename p)
                \<lparr>verdict = blink_analyze_video det p, ground_truth = gt\<rparr> = None"
  shows "blink_process_dataset e det now fd rd out =
           (if found e fd @ found e rd = [] then nothing_reported
            else reported out now
                   (accuracy_summary (verdicts_of (blink_analyze_video det) (found e fd) (found e rd)))
                   (verdicts_of (blink_analyze_video det) (found e fd) (found e rd)))"
proof -
  have F: "run_batch e [] (blink_analyze_video det) (blink_print_video_details e) FAKE (found e fd) =
      Inr (map (\<lambda>p. \<lparr>verdict = blink_analyze_video det p, ground_truth = FAKE\<rparr>) (found e fd))"
    by (rule run_batch_ok [OF c]) (simp add: q)
  have R: "run_batch e [] (blink_analyze_video det) (blink_print_video_details e) REAL (found e rd) =
      Inr (map (\<lambda>p. \<lparr>verdict = blink_analyze_video det p, ground_truth = REAL\<rparr>) (found e rd))"
    by (rule run_batch_ok [OF c]) (simp add: q)
  show ?thesis
    by (simp add: blink_process_dataset_def listable_found [OF lf] listable_found [OF lr] F R
        save_def w say_None [OF c] reported_def nothing_reported_def verdicts_of_def Let_def)
qed

lemma headpose_run:
  assumes c: "\<forall>v. console e v" and w: "writable e out"
    and lf: "listable e fd" and lr: "listable e rd"
    and q: "\<And>p gt. p \<in> set (found e fd @ found e rd) \<Longrightarrow>
              headpose_print_video_details e (basename p)
                \<lparr>verdict = headpose_analyze_video det p, ground_truth = gt\<rparr> = None"
  shows "headpose_process_dataset e det now fd rd out =
           (if found e fd @ found e rd = [] then nothing_reported
            else reported out now
                   (accuracy_summary (verdicts_of (headpose_analyze_video det) (found e fd) (found e rd)))
                   (verdicts_of (headpose_analyze_video det) (found e fd) (found e rd)))"
proof -
  have F: "run_batch e [] (headpose_analyze_video det) (headpose_print_video_details e) FAKE (found e fd) =
      Inr (map (\<lambda>p. \<lparr>verdict = headpose_analyze_video det p, ground_truth = FAKE\<rparr>) (found e fd))"
    by (rule run_batch_ok [OF c]) (simp add: q)
  have R: "run_batch e [] (headpose_analyze_video det) (headpose_print_video_details e) REAL (found e rd) =
      Inr (map (\<lambda>p. \<lparr>verdict = headpose_analyze_video det p, ground_truth = REAL\<rparr>) (found e rd))"
    by (rule run_batch_ok [OF c]) (simp add: q)
  show ?thesis
    by (simp add: headpose_process_dataset_def listable_found [OF lf] listable_found [OF lr] F R
        save_def w say_None [OF c] reported_def nothing_reported_def verdicts_of_def Let_def)
qed



lemma texture_run:
  assumes c: "\<forall>v. console e v" and w: "writable e out"
    and lf: "listable e fd" and lr: "listable e rd"
    and q: "\<And>p gt. p \<in> set (found e fd @ found e rd) \<Longrightarrow>
              texture_print_video_details e (basename p)
                \<lparr>verdict = texture_analyze_video det p, ground_truth = gt\<rparr> = None"
  shows "texture_process_dataset e det now fd rd out =
           reported out now
             (full_summary (verdicts_of (texture_analyze_video det) (found e fd) (found e rd)))
             (verdicts_of (texture_analyze_video det) (found e fd) (found e rd))"
proof -
  have F: "run_batch e [PStr CLAPPER_BOARD] (texture_analyze_video det) (texture_print_video_details e)
        FAKE (found e fd) =
      Inr (map (\<lambda>p. \<lparr>verdict = texture_analyze_video det p, ground_truth = FAKE\<rparr>) (found e fd))"
    by (rule run_batch_ok [OF c]) (simp add: q)
  have R: "run_batch e [PStr CLAPPER_BOARD] (texture_analyze_video det) (texture_print_video_details e)
        REAL (found e rd) =
      Inr (map (\<lambda>p. \<lparr>verdict = texture_analyze_video det p, ground_truth = REAL\<rparr>) (found e rd))"
    by (rule run_batch_ok [OF c]) (simp add: q)
  show ?thesis
    by (simp add: texture_process_dataset_def listable_found [OF lf] listable_found [OF lr] F R
        save_def w say_None [OF c] reported_def verdicts_of_def Let_def)
qed


text \<open>The example environments and the runs on them.\<close>

lemma two_dirs_console: "\<forall>v. console two_dirs v"
  by (simp add: two_dirs_def)

lemma two_dirs_writable: "writable two_dirs f"
  by (simp add: two_dirs_def)

lemma two_dirs_listable: "listable two_dirs d"
  by (simp add: two_dirs_def listable_def)




lemma found_two_dirs:
  "found two_dirs ''fake'' = [''fake/a.mp4''] \<and> found two_dirs ''real'' = [''real/b.MP4'']"
  by (simp add: found_def collect_videos_def two_dirs_def video_extensions_def endswith_def
      lower_char_def path_join_def)


lemma blink_fake_video:
  "blink_detector blink_videos ''fake/a.mp4'' = Inr blink_one_frame"
  by (simp add: blink_detector_def blink_videos_def analyze_blink_def blink_init_def
      blink_face_def blink_detect_def deque_append_def
      EAR_THRESHOLD_def CONSEC_FRAMES_def Let_def mean_def std_def variance_def flag_def
      blink_one_frame_def)

lemma blink_real_video:
  "blink_detector blink_videos ''real/b.MP4'' =
     Inr [(''success'', PBool False), (''reason'', PStr ''cannot_open_video'')]"
  by (simp add: blink_detector_def blink_videos_def analyze_blink_def)

lemma blink_ex_verdicts:
  "verdicts_of (blink_analyze_video (blink_detector blink_videos)) [''fake/a.mp4''] [''real/b.MP4''] =
     ex_results"
  by (simp add: verdicts_of_def blink_analyze_video_def blink_fake_video blink_real_video
      ex_results_def blink_one_frame_def getitem_def verdict0_def Let_def)

lemma ex_accuracy: "accuracy_summary ex_results = Accuracy_Only 2 50"
  by (simp add: accuracy_summary_def ex_results_def verdict0_def Let_def)

lemma ex_spec_counts:
  "spec_correct ex_results = 1 \<and> spec_TP ex_results = 1 \<and> spec_TN ex_results = 0 \<and>
   spec_FP ex_results = 0 \<and> spec_FN ex_results = 0"
  by (simp add: ex_results_def spec_correct_def spec_TP_def spec_TN_def spec_FP_def spec_FN_def
      cell_def verdict0_def)

lemma blink_ex_run:
  "blink_main two_dirs (blink_detector blink_videos) ''t'' =
     reported ''blink_results.json'' ''t'' (Accuracy_Only 2 50) ex_results"
  using blink_run [where e = two_dirs and out = "''blink_results.json''" and fd = "''fake''"
      and rd = "''real''" and det = "blink_detector blink_videos" and now = "''t''",
      OF two_dirs_console two_dirs_writable two_dirs_listable two_dirs_listable
        blink_details_quiet [OF two_dirs_console]]
  by (simp add: blink_main_def found_two_dirs blink_ex_verdicts ex_accuracy)

lemma texture_ex_verdicts:
  "verdicts_of (texture_analyze_video (texture_detector texture_videos)) [''fake/a.mp4'']
     [''real/b.MP4''] = texture_ex_results"
  by (simp add: verdicts_of_def texture_analyze_video_def texture_detector_def texture_videos_def
      analyze_texture_def FRAME_SKIP_def THRESHOLD_def mean_def fake_ratio_of_def
      texture_ex_results_def getitem_def get_default_def verdict0_def Let_def)

lemma texture_ex_summary:
  "full_summary texture_ex_results =
     Full_Metrics 100 100 100 100 \<lparr>TP = 1, TN = 0, FP = 0, FN = 0\<rparr>"
  by (simp add: full_summary_def tally_loop_def tally_step_def tally0_def texture_ex_results_def
      verdict0_def Let_def)

lemma texture_ex_run:
  "texture_main two_dirs (texture_detector texture_videos) ''t'' =
     reported ''texture_evaluation.json'' ''t''
       (Full_Metrics 100 100 100 100 \<lparr>TP = 1, TN = 0, FP = 0, FN = 0\<rparr>) texture_ex_results"
  using texture_run [where e = two_dirs and out = "''texture_evaluation.json''" and fd = "''fake''"
      and rd = "''real''" and det = "texture_detector texture_videos" and now = "''t''",
      OF two_dirs_console two_dirs_writable two_dirs_listable two_dirs_listable
        texture_details_quiet [OF two_dirs_console]]
  by (simp add: texture_main_def found_two_dirs texture_ex_verdicts texture_ex_summary)

lemma report_of_reported:
  "report_of (reported out now s rs) = Some \<lparr>timestamp = now, summary = s, results = rs\<rparr>"
  by (simp add: report_of_def reported_def)

lemma headpose_ex_verdicts:
  "verdicts_of (headpose_analyze_video (headpose_detector headpose_videos)) [''fake/a.mp4'']
     [''real/b.MP4''] = headpose_ex_results"
proof -
  have f: "headpose_detector headpose_videos ''fake/a.mp4'' = Inr headpose_one_frame"
    by (simp add: headpose_detector_def headpose_videos_def headpose_one_frame_run)
  have r: "headpose_detector headpose_videos ''real/b.MP4'' =
      Inr [(''success'', PBool False), (''reason'', PStr ''cannot_open_video'')]"
    by (simp add: headpose_detector_def headpose_videos_def analyze_headpose_def)
  show ?thesis
    by (simp add: verdicts_of_def headpose_analyze_video_def f r headpose_ex_results_def
        headpose_one_frame_def getitem_def verdict0_def Let_def)
qed

lemma headpose_ex_accuracy: "accuracy_summary headpose_ex_results = Accuracy_Only 2 0"
  by (simp add: accuracy_summary_def headpose_ex_results_def verdict0_def Let_def)





text \<open>Runs that end with an exception and persist nothing: a dataset path that is a
  regular file, a console that writes ASCII text only, a detector result without the
  fields that are printed.\<close>

lemma not_a_directory_raises:
  "blink_main fake_is_a_file (blink_detector blink_videos) ''t'' = raised (OSError ''Not a directory'') \<and>
   headpose_main fake_is_a_file (headpose_detector headpose_videos) ''t'' =
     raised (OSError ''Not a directory'') \<and>
   emotion_main fake_is_a_file det_raises ''t'' = raised (OSError ''Not a directory'') \<and>
   texture_main fake_is_a_file (texture_detector texture_videos) ''t'' =
     raised (OSError ''Not a directory'')"
  by (simp add: blink_main_def headpose_main_def emotion_main_def texture_main_def
      blink_process_dataset_def headpose_process_dataset_def emotion_process_dataset_def
      texture_process_dataset_def collect_videos_def fake_is_a_file_def say_def)

lemma ascii_console_raises:
  "texture_main ascii_console (texture_detector texture_videos) ''t'' = raised UnicodeEncodeError"
  by (simp add: texture_main_def texture_process_dataset_def say_def ascii_console_def
      two_dirs_def TEST_TUBE_def)

lemma missing_field_raises:
  "emotion_main two_dirs det_ex ''t'' = raised (KeyError ''emotion_frequency'') \<and>
   blink_main two_dirs det_ex ''t'' = raised (KeyError ''blink_count'')"
proof -
  have f: "collect_videos two_dirs ''fake'' = Inr [''fake/a.mp4'']"
    using listable_found [OF two_dirs_listable, of "''fake''"] by (simp add: found_two_dirs)
  have r: "collect_videos two_dirs ''real'' = Inr [''real/b.MP4'']"
    using listable_found [OF two_dirs_listable, of "''real''"] by (simp add: found_two_dirs)
  have b: "basename ''fake/a.mp4'' = ''a.mp4'' \<and> basename ''real/b.MP4'' = ''b.MP4''"
    by (simp add: basename_def)
  show ?thesis
    by (simp add: emotion_main_def blink_main_def emotion_process_dataset_def
        blink_process_dataset_def f r b say_None [OF two_dirs_console]
        emotion_analyze_video_def blink_analyze_video_def det_ex_def getitem_def verdict0_def
        emotion_print_video_details_def blink_print_video_details_def need_def raised_def
        Let_def)
qed


lemma headpose_ex_run:
  "headpose_main two_dirs (headpose_detector headpose_videos) ''t'' =
     reported ''headpose_results.json'' ''t'' (Accuracy_Only 2 0) headpose_ex_results"
  using headpose_run [where e = two_dirs and out = "''headpose_results.json''" and fd = "''fake''"
      and rd = "''real''" and det = "headpose_detector headpose_videos" and now = "''t''",
      OF two_dirs_console two_dirs_writable two_dirs_listable two_dirs_listable
        headpose_details_quiet [OF two_dirs_console]]
  by (simp add: headpose_main_def found_two_dirs headpose_ex_verdicts headpose_ex_accuracy)

section \<open>Properties of the orchestrator\<close>

lemma map_of_unique:
  assumes "(k, v) \<in> set xs" and "\<forall>v'. (k, v') \<in> set xs \<longrightarrow> v' = v"
  shows "map_of xs k = Some v"
proof -
  from assms(1) obtain v' where v': "map_of xs k = Some v'"
    using weak_map_of_SomeI by fastforce
  then have "(k, v') \<in> set xs" by (rule map_of_SomeD)
  with assms(2) have "v' = v" by blast
  with v' show ?thesis by simp
qed

lemma run_detector_failed:
  assumes "task_failed spawn files (name, py, scr)"
  shows "run_detector spawn files name py scr = Inr (name, None)"
  using assms by (auto simp: task_failed_def run_detector_def split: task.splits if_splits)

lemma run_detector_succeeded:
  assumes "task_succeeded spawn files (name, py, scr) v"
  shows "run_detector spawn files name py scr = Inr (name, v)"
  using assms by (auto simp: task_succeeded_def run_detector_def split: task.splits)

lemma scripts_unique:
  assumes "(name, py, scr) \<in> set SCRIPTS" and "(name, py', scr') \<in> set SCRIPTS"
  shows "py' = py \<and> scr' = scr"
proof -
  from assms(1) have "name = ''emotion'' \<and> py = PY_GLOBAL \<and> scr = ''evaluate_emotion.py'' \<or>
      name = ''blink'' \<and> py = PY_VENV \<and> scr = ''evaluate_blink.py'' \<or>
      name = ''headpose'' \<and> py = PY_VENV \<and> scr = ''evaluate_headpose.py'' \<or>
      name = ''texture'' \<and> py = PY_VENV \<and> scr = ''evaluate_texture.py''"
    by (simp add: SCRIPTS_def)
  moreover from assms(2) have "name = ''emotion'' \<and> py' = PY_GLOBAL \<and> scr' = ''evaluate_emotion.py'' \<or>
      name = ''blink'' \<and> py' = PY_VENV \<and> scr' = ''evaluate_blink.py'' \<or>
      name = ''headpose'' \<and> py' = PY_VENV \<and> scr' = ''evaluate_headpose.py'' \<or>
      name = ''texture'' \<and> py' = PY_VENV \<and> scr' = ''evaluate_texture.py''"
    by (simp add: SCRIPTS_def)
  ultimately show ?thesis
    by (elim disjE conjE) simp_all
qed

lemma finished_lookup:
  assumes "set completion = set SCRIPTS" and "(name, py, scr) \<in> set SCRIPTS"
  shows "map_of (map (\<lambda>(name, python_exec, script). (name, f name python_exec script)) completion)
           name = Some (f name py scr)"
proof (rule map_of_unique)
  from assms have "(name, py, scr) \<in> set completion" by simp
  then have "(\<lambda>(name, python_exec, script). (name, f name python_exec script)) (name, py, scr) \<in>
      (\<lambda>(name, python_exec, script). (name, f name python_exec script)) ` set completion"
    by (rule imageI)
  then show "(name, f name py scr) \<in>
      set (map (\<lambda>(name, python_exec, script). (name, f name python_exec script)) completion)"
    by simp
next
  show "\<forall>v'. (name, v') \<in>
      set (map (\<lambda>(name, python_exec, script). (name, f name python_exec script)) completion) \<longrightarrow>
      v' = f name py scr"
  proof (intro allI impI)
    fix v'
    assume "(name, v') \<in>
      set (map (\<lambda>(name, python_exec, script). (name, f name python_exec script)) completion)"
    then obtain t where t: "t \<in> set completion"
      and tv: "(name, v') = (\<lambda>(name, python_exec, script). (name, f name python_exec script)) t"
      by auto
    obtain n' py' scr' where teq: "t = (n', py', scr')" by (cases t) auto
    from tv teq have n': "n' = name" and v': "v' = f name py' scr'" by simp_all
    from t teq n' assms(1) have "(name, py', scr') \<in> set SCRIPTS" by simp
    from scripts_unique [OF assms(2) this] v' show "v' = f name py scr" by simp
  qed
qed

lemma main_report:
  assumes "set completion = set SCRIPTS"
    and e: "run_detector spawn files ''emotion'' PY_GLOBAL ''evaluate_emotion.py'' = Inr (''emotion'', v1)"
    and b: "run_detector spawn files ''blink'' PY_VENV ''evaluate_blink.py'' = Inr (''blink'', v2)"
    and h: "run_detector spawn files ''headpose'' PY_VENV ''evaluate_headpose.py'' = Inr (''headpose'', v3)"
    and t: "run_detector spawn files ''texture'' PY_VENV ''evaluate_texture.py'' = Inr (''texture'', v4)"
  shows "main completion spawn files =
           Some (Inr [(''emotion'', v1), (''blink'', v2), (''headpose'', v3), (''texture'', v4)])"
proof -
  let ?fin = "map (\<lambda>(name, python_exec, script).
               (name, run_detector spawn files name python_exec script)) completion"
  have 1: "map_of ?fin ''emotion'' = Some (Inr (''emotion'', v1))"
    using finished_lookup [OF assms(1), of "''emotion''" PY_GLOBAL "''evaluate_emotion.py''"
        "run_detector spawn files"] e
    by (simp add: SCRIPTS_def)
  have 2: "map_of ?fin ''blink'' = Some (Inr (''blink'', v2))"
    using finished_lookup [OF assms(1), of "''blink''" PY_VENV "''evaluate_blink.py''"
        "run_detector spawn files"] b
    by (simp add: SCRIPTS_def)
  have 3: "map_of ?fin ''headpose'' = Some (Inr (''headpose'', v3))"
    using finished_lookup [OF assms(1), of "''headpose''" PY_VENV "''evaluate_headpose.py''"
        "run_detector spawn files"] h
    by (simp add: SCRIPTS_def)
  have 4: "map_of ?fin ''texture'' = Some (Inr (''texture'', v4))"
    using finished_lookup [OF assms(1), of "''texture''" PY_VENV "''evaluate_texture.py''"
        "run_detector spawn files"] t
    by (simp add: SCRIPTS_def)
  show ?thesis
    by (simp add: main_def SCRIPTS_def 1 2 3 4)
qed


lemma slot_exists:
  assumes "task_failed spawn files (n, p, s) \<or> (\<exists>v. task_succeeded spawn files (n, p, s) v)"
  shows "\<exists>v. run_detector spawn files n p s = Inr (n, v)"
  using assms run_detector_failed [of spawn files n p s] run_detector_succeeded [of spawn files n p s]
  by blast

lemma scripts_cases:
  assumes "t \<in> set SCRIPTS"
  shows "t = (''emotion'', PY_GLOBAL, ''evaluate_emotion.py'') \<or>
         t = (''blink'', PY_VENV, ''evaluate_blink.py'') \<or>
         t = (''headpose'', PY_VENV, ''evaluate_headpose.py'') \<or>
         t = (''texture'', PY_VENV, ''evaluate_texture.py'')"
  using assms by (simp add: SCRIPTS_def)

lemma scripts_members:
  "(''emotion'', PY_GLOBAL, ''evaluate_emotion.py'') \<in> set SCRIPTS \<and>
   (''blink'', PY_VENV, ''evaluate_blink.py'') \<in> set SCRIPTS \<and>
   (''headpose'', PY_VENV, ''evaluate_headpose.py'') \<in> set SCRIPTS \<and>
   (''texture'', PY_VENV, ''evaluate_texture.py'') \<in> set SCRIPTS"
  by (simp add: SCRIPTS_def)

text \<open>
  When every task completes and either fails the way the handlers of \<open>run_detector\<close>
  expect or succeeds, the combined report is produced with its keys in the order of
  \<open>SCRIPTS\<close>, a null in the slot of each failed family and the value read in the slot of
  each successful one, whatever the order of completion.
\<close>

lemma main_isolates_handled_failures:
  assumes perm: "set completion = set SCRIPTS"
    and ran: "\<forall>t \<in> set SCRIPTS. task_failed spawn files t \<or> (\<exists>v. task_succeeded spawn files t v)"
  shows "\<exists>rep. main completion spawn files = Some (Inr rep) \<and>
           map fst rep = [''emotion'', ''blink'', ''headpose'', ''texture''] \<and>
           (\<forall>t \<in> set SCRIPTS. task_failed spawn files t \<longrightarrow> map_of rep (fst t) = Some None) \<and>
           (\<forall>t \<in> set SCRIPTS. \<forall>v. task_succeeded spawn files t v \<longrightarrow> map_of rep (fst t) = Some v) \<and>
           ((\<exists>t \<in> set SCRIPTS. task_failed spawn files t \<and>
               (\<forall>u \<in> set SCRIPTS. u \<noteq> t \<longrightarrow> (\<exists>doc. task_succeeded spawn files u (Some doc)))) \<longrightarrow>
              nulls rep = 1 \<and> populated rep = 3)"
proof -
  let ?E = "(''emotion'', PY_GLOBAL, ''evaluate_emotion.py'')"
  let ?B = "(''blink'', PY_VENV, ''evaluate_blink.py'')"
  let ?H = "(''headpose'', PY_VENV, ''evaluate_headpose.py'')"
  let ?T = "(''texture'', PY_VENV, ''evaluate_texture.py'')"
  have mem: "?E \<in> set SCRIPTS" "?B \<in> set SCRIPTS" "?H \<in> set SCRIPTS" "?T \<in> set SCRIPTS"
    using scripts_members by blast+
  have ne: "?B \<noteq> ?E" "?H \<noteq> ?E" "?T \<noteq> ?E" "?E \<noteq> ?B" "?H \<noteq> ?B" "?T \<noteq> ?B"
    "?E \<noteq> ?H" "?B \<noteq> ?H" "?T \<noteq> ?H" "?E \<noteq> ?T" "?B \<noteq> ?T" "?H \<noteq> ?T"
    by simp_all
  from ran mem(1) have "task_failed spawn files ?E \<or> (\<exists>v. task_succeeded spawn files ?E v)" by (rule bspec)
  from slot_exists [OF this] obtain v1
    where e: "run_detector spawn files ''emotion'' PY_GLOBAL ''evaluate_emotion.py'' = Inr (''emotion'', v1)" ..
  from ran mem(2) have "task_failed spawn files ?B \<or> (\<exists>v. task_succeeded spawn files ?B v)" by (rule bspec)
  from slot_exists [OF this] obtain v2
    where b: "run_detector spawn files ''blink'' PY_VENV ''evaluate_blink.py'' = Inr (''blink'', v2)" ..
  from ran mem(3) have "task_failed spawn files ?H \<or> (\<exists>v. task_succeeded spawn files ?H v)" by (rule bspec)
  from slot_exists [OF this] obtain v3
    where h: "run_detector spawn files ''headpose'' PY_VENV ''evaluate_headpose.py'' = Inr (''headpose'', v3)" ..
  from ran mem(4) have "task_failed spawn files ?T \<or> (\<exists>v. task_succeeded spawn files ?T v)" by (rule bspec)
  from slot_exists [OF this] obtain v4
    where t: "run_detector spawn files ''texture'' PY_VENV ''evaluate_texture.py'' = Inr (''texture'', v4)" ..
  define rep where "rep = [(''emotion'', v1), (''blink'', v2), (''headpose'', v3), (''texture'', v4)]"
  have run: "main completion spawn files = Some (Inr rep)"
    unfolding rep_def by (rule main_report [OF perm e b h t])
  have keys: "map fst rep = [''emotion'', ''blink'', ''headpose'', ''texture'']"
    by (simp add: rep_def)
  have FE: "task_failed spawn files ?E \<Longrightarrow> v1 = None"
    using run_detector_failed [of spawn files "''emotion''" PY_GLOBAL "''evaluate_emotion.py''"] e by simp
  have FB: "task_failed spawn files ?B \<Longrightarrow> v2 = None"
    using run_detector_failed [of spawn files "''blink''" PY_VENV "''evaluate_blink.py''"] b by simp
  have FH: "task_failed spawn files ?H \<Longrightarrow> v3 = None"
    using run_detector_failed [of spawn files "''headpose''" PY_VENV "''evaluate_headpose.py''"] h by simp
  have FT: "task_failed spawn files ?T \<Longrightarrow> v4 = None"
    using run_detector_failed [of spawn files "''texture''" PY_VENV "''evaluate_texture.py''"] t by simp
  have SE: "task_succeeded spawn files ?E v \<Longrightarrow> v1 = v" for v
    using run_detector_succeeded [of spawn files "''emotion''" PY_GLOBAL "''evaluate_emotion.py''" v] e by simp
  have SB: "task_succeeded spawn files ?B v \<Longrightarrow> v2 = v" for v
    using run_detector_succeeded [of spawn files "''blink''" PY_VENV "''evaluate_blink.py''" v] b by simp
  have SH: "task_succeeded spawn files ?H v \<Longrightarrow> v3 = v" for v
    using run_detector_succeeded [of spawn files "''headpose''" PY_VENV "''evaluate_headpose.py''" v] h by simp
  have ST: "task_succeeded spawn files ?T v \<Longrightarrow> v4 = v" for v
    using run_detector_succeeded [of spawn files "''texture''" PY_VENV "''evaluate_texture.py''" v] t by simp
  have failed: "\<forall>t \<in> set SCRIPTS. task_failed spawn files t \<longrightarrow> map_of rep (fst t) = Some None"
  proof (intro ballI impI)
    fix u assume u: "u \<in> set SCRIPTS" and f: "task_failed spawn files u"
    from scripts_cases [OF u] show "map_of rep (fst u) = Some None"
    proof (elim disjE)
      assume "u = ?E" with f FE show ?thesis by (simp add: rep_def)
    next
      assume "u = ?B" with f FB show ?thesis by (simp add: rep_def)
    next
      assume "u = ?H" with f FH show ?thesis by (simp add: rep_def)
    next
      assume "u = ?T" with f FT show ?thesis by (simp add: rep_def)
    qed
  qed
  have succeeded: "\<forall>t \<in> set SCRIPTS. \<forall>v. task_succeeded spawn files t v \<longrightarrow> map_of rep (fst t) = Some v"
  proof (intro ballI allI impI)
    fix u v assume u: "u \<in> set SCRIPTS" and f: "task_succeeded spawn files u v"
    from scripts_cases [OF u] show "map_of rep (fst u) = Some v"
    proof (elim disjE)
      assume "u = ?E" with f SE [of v] show ?thesis by (simp add: rep_def)
    next
      assume "u = ?B" with f SB [of v] show ?thesis by (simp add: rep_def)
    next
      assume "u = ?H" with f SH [of v] show ?thesis by (simp add: rep_def)
    next
      assume "u = ?T" with f ST [of v] show ?thesis by (simp add: rep_def)
    qed
  qed
  have count: "(\<exists>t \<in> set SCRIPTS. task_failed spawn files t \<and>
               (\<forall>u \<in> set SCRIPTS. u \<noteq> t \<longrightarrow> (\<exists>doc. task_succeeded spawn files u (Some doc)))) \<longrightarrow>
              nulls rep = 1 \<and> populated rep = 3"
  proof
    assume "\<exists>t \<in> set SCRIPTS. task_failed spawn files t \<and>
               (\<forall>u \<in> set SCRIPTS. u \<noteq> t \<longrightarrow> (\<exists>doc. task_succeeded spawn files u (Some doc)))"
    then obtain u where u: "u \<in> set SCRIPTS" and uf: "task_failed spawn files u"
      and others: "\<forall>w \<in> set SCRIPTS. w \<noteq> u \<longrightarrow> (\<exists>doc. task_succeeded spawn files w (Some doc))"
      by (elim bexE conjE)
    from scripts_cases [OF u] show "nulls rep = 1 \<and> populated rep = 3"
    proof (elim disjE)
      assume ue: "u = ?E"
      with uf FE have n: "v1 = None" by simp
      from others mem(2) have "?B \<noteq> u \<longrightarrow> (\<exists>doc. task_succeeded spawn files ?B (Some doc))"
        by (rule bspec)
      with ue obtain dbx where "task_succeeded spawn files ?B (Some dbx)" by auto
      with SB have a: "v2 = Some dbx" by simp
      from others mem(3) have "?H \<noteq> u \<longrightarrow> (\<exists>doc. task_succeeded spawn files ?H (Some doc))"
        by (rule bspec)
      with ue obtain dhx where "task_succeeded spawn files ?H (Some dhx)" by auto
      with SH have b': "v3 = Some dhx" by simp
      from others mem(4) have "?T \<noteq> u \<longrightarrow> (\<exists>doc. task_succeeded spawn files ?T (Some doc))"
        by (rule bspec)
      with ue obtain dtx where "task_succeeded spawn files ?T (Some dtx)" by auto
      with ST have c: "v4 = Some dtx" by simp
      from n a b' c show "nulls rep = 1 \<and> populated rep = 3"
        by (simp add: rep_def nulls_def populated_def)
    next
        assume ue: "u = ?B"
      with uf FB have n: "v2 = None" by simp
      from others mem(1) have "?E \<noteq> u \<longrightarrow> (\<exists>doc. task_succeeded spawn files ?E (Some doc))"
        by (rule bspec)
      with ue obtain dex where "task_succeeded spawn files ?E (Some dex)" by auto
      with SE have a: "v1 = Some dex" by simp
      from others mem(3) have "?H \<noteq> u \<longrightarrow> (\<exists>doc. task_succeeded spawn files ?H (Some doc))"
        by (rule bspec)
      with ue obtain dhx where "task_succeeded spawn files ?H (Some dhx)" by auto
      with SH have b': "v3 = Some dhx" by simp
      from others mem(4) have "?T \<noteq> u \<longrightarrow> (\<exists>doc. task_succeeded spawn files ?T (Some doc))"
        by (rule bspec)
      with ue obtain dtx where "task_succeeded spawn files ?T (Some dtx)" by auto
      with ST have c: "v4 = Some dtx" by simp
      from n a b' c show "nulls rep = 1 \<and> populated rep = 3"
        by (simp add: rep_def nulls_def populated_def)
    next
        assume ue: "u = ?H"
      with uf FH have n: "v3 = None" by simp
      from others mem(1) have "?E \<noteq> u \<longrightarrow> (\<exists>doc. task_succeeded spawn files ?E (Some doc))"
        by (rule bspec)
      with ue obtain dex where "task_succeeded spawn files ?E (Some dex)" by auto
      with SE have a: "v1 = Some dex" by simp
      from others mem(2) have "?B \<noteq> u \<longrightarrow> (\<exists>doc. task_succeeded spawn files ?B (Some doc))"
        by (rule bspec)
      with ue obtain dbx where "task_succeeded spawn files ?B (Some dbx)" by auto
      with SB have b': "v2 = Some dbx" by simp
      from others mem(4) have "?T \<noteq> u \<longrightarrow> (\<exists>doc. task_succeeded spawn files ?T (Some doc))"
        by (rule bspec)
      with ue obtain dtx where "task_succeeded spawn files ?T (Some dtx)" by auto
      with ST have c: "v4 = Some dtx" by simp
      from n a b' c show "nulls rep = 1 \<and> populated rep = 3"
        by (simp add: rep_def nulls_def populated_def)
    next
        assume ue: "u = ?T"
      with uf FT have n: "v4 = None" by simp
      from others mem(1) have "?E \<noteq> u \<longrightarrow> (\<exists>doc. task_succeeded spawn files ?E (Some doc))"
        by (rule bspec)
      with ue obtain dex where "task_succeeded spawn files ?E (Some dex)" by auto
      with SE have a: "v1 = Some dex" by simp
      from others mem(2) have "?B \<noteq> u \<longrightarrow> (\<exists>doc. task_succeeded spawn files ?B (Some doc))"
        by (rule bspec)
      with ue obtain dbx where "task_succeeded spawn files ?B (Some dbx)" by auto
      with SB have b': "v2 = Some dbx" by simp
      from others mem(3) have "?H \<noteq> u \<longrightarrow> (\<exists>doc. task_succeeded spawn files ?H (Some doc))"
        by (rule bspec)
      with ue obtain dhx where "task_succeeded spawn files ?H (Some dhx)" by auto
      with SH have c: "v3 = Some dhx" by simp
      from n a b' c show "nulls rep = 1 \<and> populated rep = 3"
        by (simp add: rep_def nulls_def populated_def)
    qed
  qed
  from run keys failed succeeded count show ?thesis
    by (intro exI [of _ rep] conjI)
qed


section \<open>Claims\<close>

text \<open>
  C1 (as amended). The evaluators of the texture and emotion families compute
  accuracy = correct / (TP+TN+FP+FN) * 100, precision = TP/(TP+FP) * 100,
  recall = TP/(TP+FN) * 100 and f1 = 2 * precision * recall / (precision + recall), each
  ratio being 0 when its denominator is 0, where correct counts the verdicts whose
  prediction equals their ground truth. The evaluators of the blink and headpose families
  compute only accuracy = correct / total_videos * 100, where total_videos counts every
  verdict, those with no prediction included, and compute no precision, recall or f1.
  This holds of every report that a run persists.
\<close>

theorem metrics_formulas:
  "(report_of (texture_process_dataset e det now fd rd out) = Some rep \<longrightarrow>
      full_metrics_as_specified (summary rep) (results rep)) \<and>
   (report_of (emotion_process_dataset e det now fd rd out) = Some rep \<longrightarrow>
      full_metrics_as_specified (summary rep) (results rep)) \<and>
   (report_of (blink_process_dataset e det now fd rd out) = Some rep \<longrightarrow>
      accuracy_over_all_videos (summary rep) (results rep)) \<and>
   (report_of (headpose_process_dataset e det now fd rd out) = Some rep \<longrightarrow>
      accuracy_over_all_videos (summary rep) (results rep))"
  by (simp add: texture_report_summary emotion_report_summary blink_report_summary
      headpose_report_summary full_summary_as_specified accuracy_summary_over_all)

text \<open>
  C1 at the example dataset, with the detectors themselves: the texture evaluator finds one
  true positive and one video without prediction, and reports 100 for each ratio; the
  blink evaluator finds the fake video suspicious, cannot open the real one, and reports
  an accuracy of 50 over the two videos.
\<close>

theorem metrics_formulas_witness:
  "report_of (texture_main two_dirs (texture_detector texture_videos) ''t'') =
     Some \<lparr>timestamp = ''t'',
           summary = Full_Metrics 100 100 100 100 \<lparr>TP = 1, TN = 0, FP = 0, FN = 0\<rparr>,
           results = texture_ex_results\<rparr> \<and>
   full_metrics_as_specified
     (Full_Metrics 100 100 100 100 \<lparr>TP = 1, TN = 0, FP = 0, FN = 0\<rparr>) texture_ex_results \<and>
   report_of (blink_main two_dirs (blink_detector blink_videos) ''t'') =
     Some \<lparr>timestamp = ''t'', summary = Accuracy_Only 2 50, results = ex_results\<rparr> \<and>
   accuracy_over_all_videos (Accuracy_Only 2 50) ex_results"
proof -
  have t: "report_of (texture_process_dataset two_dirs (texture_detector texture_videos) ''t''
              ''fake'' ''real'' ''texture_evaluation.json'') =
      Some \<lparr>timestamp = ''t'',
            summary = Full_Metrics 100 100 100 100 \<lparr>TP = 1, TN = 0, FP = 0, FN = 0\<rparr>,
            results = texture_ex_results\<rparr>"
    using texture_ex_run by (simp add: texture_main_def report_of_reported)
  have b: "report_of (blink_process_dataset two_dirs (blink_detector blink_videos) ''t''
              ''fake'' ''real'' ''blink_results.json'') =
      Some \<lparr>timestamp = ''t'', summary = Accuracy_Only 2 50, results = ex_results\<rparr>"
    using blink_ex_run by (simp add: blink_main_def report_of_reported)
  from metrics_formulas [of two_dirs "texture_detector texture_videos" "''t''" "''fake''" "''real''"
      "''texture_evaluation.json''"
      "\<lparr>timestamp = ''t'',
        summary = Full_Metrics 100 100 100 100 \<lparr>TP = 1, TN = 0, FP = 0, FN = 0\<rparr>,
        results = texture_ex_results\<rparr>"] t
  have 1: "full_metrics_as_specified
     (Full_Metrics 100 100 100 100 \<lparr>TP = 1, TN = 0, FP = 0, FN = 0\<rparr>) texture_ex_results"
    by simp
  from metrics_formulas [of two_dirs "blink_detector blink_videos" "''t''" "''fake''" "''real''"
      "''blink_results.json''"
      "\<lparr>timestamp = ''t'', summary = Accuracy_Only 2 50, results = ex_results\<rparr>"] b
  have 2: "accuracy_over_all_videos (Accuracy_Only 2 50) ex_results"
    by simp
  from t b 1 2 show ?thesis by (simp add: texture_main_def blink_main_def)
qed

text \<open>
  C1 as stated fails for the blink evaluator: on the example dataset (the fake video is
  predicted FAKE, the real video cannot be opened and has no prediction) it reports an
  accuracy of 50, whereas correct / (TP+TN+FP+FN) * 100 is 100.
\<close>

theorem blink_accuracy_counterexample:
  "report_of (blink_main two_dirs (blink_detector blink_videos) ''t'') =
     Some \<lparr>timestamp = ''t'', summary = Accuracy_Only 2 50, results = ex_results\<rparr> \<and>
   pct (spec_correct ex_results)
     (spec_TP ex_results + spec_TN ex_results + spec_FP ex_results + spec_FN ex_results) = 100 \<and>
   \<not> full_metrics_as_specified (Accuracy_Only 2 50) ex_results"
  by (simp add: blink_ex_run report_of_reported ex_spec_counts full_metrics_as_specified_def
      pct_def)

text \<open>
  C7. A verdict with no prediction changes none of the four confusion-matrix cells; a verdict
  with a prediction adds one to exactly one cell; therefore TP+TN+FP+FN is at most the
  number of videos, with equality if and only if no video has prediction none.
\<close>

theorem confusion_matrix_identity:
  "(prediction (verdict r) = None \<longrightarrow> tally_step t r = t) \<and>
   (prediction (verdict r) \<noteq> None \<longrightarrow>
      cells (tally_step t r) \<in>
        {(tp t + 1, tn t, fp t, fn t), (tp t, tn t + 1, fp t, fn t),
         (tp t, tn t, fp t + 1, fn t), (tp t, tn t, fp t, fn t + 1)}) \<and>
   (let c = confusion_matrix (full_summary rs) in
      TP c + TN c + FP c + FN c \<le> length rs \<and>
      (TP c + TN c + FP c + FN c = length rs \<longleftrightarrow>
         (\<forall>r \<in> set rs. prediction (verdict r) \<noteq> None)))"
proof (intro conjI)
  show "prediction (verdict r) = None \<longrightarrow> tally_step t r = t"
    by (simp add: tally_step_def)
next
  show "prediction (verdict r) \<noteq> None \<longrightarrow>
      cells (tally_step t r) \<in>
        {(tp t + 1, tn t, fp t, fn t), (tp t, tn t + 1, fp t, fn t),
         (tp t, tn t, fp t + 1, fn t), (tp t, tn t, fp t, fn t + 1)}"
  proof
    assume "prediction (verdict r) \<noteq> None"
    then obtain p where p: "prediction (verdict r) = Some p" by auto
    show "cells (tally_step t r) \<in>
        {(tp t + 1, tn t, fp t, fn t), (tp t, tn t + 1, fp t, fn t),
         (tp t, tn t, fp t + 1, fn t), (tp t, tn t, fp t, fn t + 1)}"
      using p by (cases p; cases "ground_truth r") (simp_all add: tally_step_def cells_def)
  qed
next
  have sum: "spec_TP rs + spec_TN rs + spec_FP rs + spec_FN rs =
      length (filter (\<lambda>r. prediction (verdict r) \<noteq> None) rs)"
    using spec_valid_filter [of rs] by (simp add: spec_valid_def)
  show "let c = confusion_matrix (full_summary rs) in
      TP c + TN c + FP c + FN c \<le> length rs \<and>
      (TP c + TN c + FP c + FN c = length rs \<longleftrightarrow>
         (\<forall>r \<in> set rs. prediction (verdict r) \<noteq> None))"
    unfolding Let_def confusion_full_summary
    by (simp only: confusion.simps sum length_filter_le length_filter_eq_iff simp_thms)
qed

text \<open>C7 at concrete verdicts.\<close>

theorem confusion_matrix_identity_witness:
  "tally_step tally0 (ex_verdict None FAKE) = tally0 \<and>
   cells (tally_step tally0 (ex_verdict (Some FAKE) REAL)) = (0, 0, 1, 0) \<and>
   (let c = confusion_matrix (full_summary [ex_verdict None FAKE, ex_verdict (Some FAKE) FAKE]) in
      TP c + TN c + FP c + FN c < 2)"
proof -
  let ?rs = "[ex_verdict None FAKE, ex_verdict (Some FAKE) FAKE]"
  note T = confusion_matrix_identity [of "ex_verdict None FAKE" tally0 ?rs]
  have none: "prediction (verdict (ex_verdict None FAKE)) = None"
    by (simp add: ex_verdict_def)
  from T none have 1: "tally_step tally0 (ex_verdict None FAKE) = tally0"
    by blast
  have 2: "cells (tally_step tally0 (ex_verdict (Some FAKE) REAL)) = (0, 0, 1, 0)"
    by (simp add: cells_def tally_step_def tally0_def ex_verdict_def)
  define n where "n = (let c = confusion_matrix (full_summary ?rs) in TP c + TN c + FP c + FN c)"
  from T have le: "n \<le> length ?rs"
    and eq: "n = length ?rs \<longleftrightarrow> (\<forall>r \<in> set ?rs. prediction (verdict r) \<noteq> None)"
    unfolding n_def Let_def by blast+
  have "\<not> (\<forall>r \<in> set ?rs. prediction (verdict r) \<noteq> None)"
    using none by simp
  with eq have "n \<noteq> length ?rs" by blast
  with le have "n < 2" by simp
  then have 3: "let c = confusion_matrix (full_summary ?rs) in TP c + TN c + FP c + FN c < 2"
    unfolding n_def Let_def .
  from 1 2 3 show ?thesis by blast
qed

text \<open>
  C3. On a successful detector result each family's wrapper applies its own rule with its
  own confidences: blink and headpose predict FAKE with confidence 0.8 when \<open>suspicious\<close>
  is true and REAL with confidence 0.9 otherwise; emotion predicts FAKE with confidence
  0.85 when \<open>suspicious\<close> is true and REAL with confidence 0.80 otherwise; texture predicts
  FAKE with confidence \<open>avg_score\<close> when \<open>avg_score < 0.8\<close> and REAL with confidence
  \<open>1 - avg_score\<close> otherwise.
\<close>

theorem decision_rules:
  assumes "det p = Inr d" and "map_of d ''success'' = Some (PBool True)"
  shows "(map_of d ''suspicious'' = Some (PBool s) \<longrightarrow>
            prediction (blink_analyze_video det p) = Some (if s then FAKE else REAL) \<and>
            confidence (blink_analyze_video det p) = PFloat (if s then 0.8 else 0.9) \<and>
            prediction (headpose_analyze_video det p) = Some (if s then FAKE else REAL) \<and>
            confidence (headpose_analyze_video det p) = PFloat (if s then 0.8 else 0.9) \<and>
            prediction (emotion_analyze_video det p) = Some (if s then FAKE else REAL) \<and>
            confidence (emotion_analyze_video det p) = PFloat (if s then 0.85 else 0.80)) \<and>
         (map_of d ''avg_score'' = Some (PFloat a) \<longrightarrow>
            prediction (texture_analyze_video det p) = Some (if a < 0.8 then FAKE else REAL) \<and>
            confidence (texture_analyze_video det p) = PFloat (if a < 0.8 then a else 1 - a))"
proof (intro conjI impI)
  assume sus: "map_of d ''suspicious'' = Some (PBool s)"
  show "prediction (blink_analyze_video det p) = Some (if s then FAKE else REAL)"
    using assms sus by (simp add: blink_analyze_video_def getitem_Some Let_def)
  show "confidence (blink_analyze_video det p) = PFloat (if s then 0.8 else 0.9)"
    using assms sus by (simp add: blink_analyze_video_def getitem_Some Let_def)
  show "prediction (headpose_analyze_video det p) = Some (if s then FAKE else REAL)"
    using assms sus by (simp add: headpose_analyze_video_def getitem_Some Let_def)
  show "confidence (headpose_analyze_video det p) = PFloat (if s then 0.8 else 0.9)"
    using assms sus by (simp add: headpose_analyze_video_def getitem_Some Let_def)
  show "prediction (emotion_analyze_video det p) = Some (if s then FAKE else REAL)"
    using assms sus by (simp add: emotion_analyze_video_def getitem_Some Let_def)
  show "confidence (emotion_analyze_video det p) = PFloat (if s then 0.85 else 0.80)"
    using assms sus by (simp add: emotion_analyze_video_def getitem_Some Let_def)
next
  assume avg: "map_of d ''avg_score'' = Some (PFloat a)"
  show "prediction (texture_analyze_video det p) = Some (if a < 0.8 then FAKE else REAL)"
    using assms avg by (simp add: texture_analyze_video_def getitem_Some Let_def)
  show "confidence (texture_analyze_video det p) = PFloat (if a < 0.8 then a else 1 - a)"
    using assms avg by (simp add: texture_analyze_video_def getitem_Some Let_def)
qed

text \<open>C3 at the successful result of the example detector.\<close>

theorem decision_rules_witness:
  "prediction (blink_analyze_video det_ex ''real/b.MP4'') = Some REAL \<and>
   confidence (blink_analyze_video det_ex ''real/b.MP4'') = PFloat 0.9 \<and>
   prediction (headpose_analyze_video det_ex ''real/b.MP4'') = Some REAL \<and>
   confidence (headpose_analyze_video det_ex ''real/b.MP4'') = PFloat 0.9 \<and>
   prediction (emotion_analyze_video det_ex ''real/b.MP4'') = Some REAL \<and>
   confidence (emotion_analyze_video det_ex ''real/b.MP4'') = PFloat 0.8 \<and>
   prediction (texture_analyze_video det_ex ''real/b.MP4'') = Some REAL \<and>
   confidence (texture_analyze_video det_ex ''real/b.MP4'') = PFloat 0.1"
proof -
  let ?d = "[(''success'', PBool True), (''suspicious'', PBool False),
             (''reasons'', PList []), (''avg_score'', PFloat 0.9)]"
  have 1: "det_ex ''real/b.MP4'' = Inr ?d" by (simp add: det_ex_def)
  have 2: "map_of ?d ''success'' = Some (PBool True)" by simp
  have 3: "map_of ?d ''suspicious'' = Some (PBool False)" by simp
  have 4: "map_of ?d ''avg_score'' = Some (PFloat 0.9)" by simp
  show ?thesis
    using decision_rules [of det_ex "''real/b.MP4''" ?d False "0.9"] 1 2 3 4 by simp
qed




text \<open>
  C2. On every video whose frames raise no exception, and for every non-zero frame
  interval, the loop of \<open>analyze_blink\<close> ends with the counter equal to the length of the
  run of measurements below \<open>EAR_THRESHOLD\<close> that ends the measured EAR sequence, and
  with \<open>blink_count\<close> equal to the number of measurements at or above \<open>EAR_THRESHOLD\<close>
  that follow a run of at least \<open>CONSEC_FRAMES\<close> measurements below it. So a
  measurement increments \<open>blink_count\<close> exactly when it is at or above the threshold
  (0.25) and follows such a run of at least 2, and it resets the counter to 0 exactly when
  it is at or above the threshold. The EAR sequence 0.30, 0.20, 0.18, 0.30 yields 1 blink
  and 0.30, 0.20, 0.30 yields 0 blinks.
\<close>

theorem blink_debounce:
  "(list_all no_throw frames \<and> frame_interval \<noteq> 0 \<longrightarrow>
      (\<exists>s. blink_loop max_frames frame_interval frames blink_init = Inr s \<and>
           counter s = closed_run (measured_ears max_frames frame_interval 0 0 frames) \<and>
           blink_count s = spec_blinks (measured_ears max_frames frame_interval 0 0 frames))) \<and>
   (int (length frames) \<le> max_frames \<longrightarrow>
      measured_ears max_frames 1 0 0 frames = ears_of frames) \<and>
   spec_blinks (ears @ [ear]) =
     spec_blinks ears +
       (if EAR_THRESHOLD \<le> ear \<and> CONSEC_FRAMES \<le> closed_run ears then 1 else 0) \<and>
   closed_run (ears @ [ear]) = (if ear < EAR_THRESHOLD then closed_run ears + 1 else 0) \<and>
   spec_blinks [] = 0 \<and> closed_run [] = 0 \<and>
   EAR_THRESHOLD = 0.25 \<and> CONSEC_FRAMES = 2 \<and>
   field (analyze_blink (Some (map Face [0.30, 0.20, 0.18, 0.30])) 100 1) ''blink_count'' = Some (PInt 1) \<and>
   field (analyze_blink (Some (map Face [0.30, 0.20, 0.30])) 100 1) ''blink_count'' = Some (PInt 0) \<and>
   field (analyze_blink (Some (every_third [0.30, 0.20, 0.18, 0.30])) 100 3) ''blink_count'' = Some (PInt 1)"
proof (intro conjI impI)
  assume "list_all no_throw frames \<and> frame_interval \<noteq> 0"
  then show "\<exists>s. blink_loop max_frames frame_interval frames blink_init = Inr s \<and>
           counter s = closed_run (measured_ears max_frames frame_interval 0 0 frames) \<and>
           blink_count s = spec_blinks (measured_ears max_frames frame_interval 0 0 frames)"
    using blink_loop_measured [of frames frame_interval max_frames] by blast
next
  assume "int (length frames) \<le> max_frames"
  then show "measured_ears max_frames 1 0 0 frames = ears_of frames"
    using measured_every_frame [of 0 frames max_frames 0] by simp
next
  show "spec_blinks (ears @ [ear]) =
     spec_blinks ears +
       (if EAR_THRESHOLD \<le> ear \<and> CONSEC_FRAMES \<le> closed_run ears then 1 else 0)"
    by (rule spec_blinks_snoc)
  show "closed_run (ears @ [ear]) = (if ear < EAR_THRESHOLD then closed_run ears + 1 else 0)"
    by (simp add: closed_run_snoc)
  show "spec_blinks [] = 0" by (simp add: spec_blinks_def)
  show "closed_run [] = 0" by (simp add: closed_run_def)
  show "EAR_THRESHOLD = 0.25" by (simp add: EAR_THRESHOLD_def)
  show "CONSEC_FRAMES = 2" by (simp add: CONSEC_FRAMES_def)
  show "field (analyze_blink (Some (map Face [0.30, 0.20, 0.18, 0.30])) 100 1) ''blink_count'' = Some (PInt 1)"
    by (rule ex1_blinks)
  show "field (analyze_blink (Some (map Face [0.30, 0.20, 0.30])) 100 1) ''blink_count'' = Some (PInt 0)"
    by (rule ex2_blinks)
  show "field (analyze_blink (Some (every_third [0.30, 0.20, 0.18, 0.30])) 100 3) ''blink_count'' = Some (PInt 1)"
    by (rule ex3_blinks)
qed

text \<open>C2 at the video that shows 0.30, 0.20, 0.18, 0.30 on every third frame.\<close>

theorem blink_debounce_witness:
  "\<exists>s. blink_loop 100 3 (every_third [0.30, 0.20, 0.18, 0.30]) blink_init = Inr s \<and>
        counter s = 0 \<and> blink_count s = 1"
proof -
  have pre: "list_all no_throw (every_third [0.30, 0.20, 0.18, 0.30]) \<and> (3::int) \<noteq> 0"
    by (simp add: every_third_def no_throw_def)
  note T = blink_debounce [of "every_third [0.30, 0.20, 0.18, 0.30]" 3 100, THEN conjunct1, THEN mp, OF pre]
  then show ?thesis
    unfolding every_third_measured
    by (simp only: every_third_counts)
qed

text \<open>
  C8. For the score lists of any two videos, one being the other with a score above
  \<open>THRESHOLD\<close> appended, the \<open>fake_ratio\<close> that \<open>analyze_texture\<close> reports does not
  decrease (the ratio of a video without scores is the 0 of the failure result).
\<close>

theorem fake_ratio_monotone:
  assumes "texture_loop frames 0 [] = Inr scores"
    and "texture_loop frames' 0 [] = Inr (scores @ [x])"
    and "THRESHOLD < x"
  shows "\<exists>r r'. num_field (analyze_texture p frames) ''fake_ratio'' = Some r \<and>
                num_field (analyze_texture p' frames') ''fake_ratio'' = Some r' \<and>
                r' = fake_ratio_of (scores @ [x]) \<and> r \<le> r'"
proof (cases "scores = []")
  case True
  with assms show ?thesis
    by (simp add: analyze_texture_fake_ratio fake_ratio_nonneg)
next
  case False
  with assms show ?thesis
    by (simp add: analyze_texture_fake_ratio fake_ratio_of_snoc)
qed

text \<open>C8 at the scores 0.2, 0.7 and the appended score 0.9.\<close>

theorem fake_ratio_monotone_witness:
  "num_field (analyze_texture ''v'' [Scores [0.2, 0.7]]) ''fake_ratio'' = Some (1 / 2) \<and>
   num_field (analyze_texture ''v'' [Scores [0.2, 0.7, 0.9]]) ''fake_ratio'' = Some (2 / 3)"
proof -
  have 1: "texture_loop [Scores [0.2, 0.7]] 0 [] = Inr [0.2, 0.7]"
    by (simp add: FRAME_SKIP_def)
  have 2: "texture_loop [Scores [0.2, 0.7, 0.9]] 0 [] = Inr ([0.2, 0.7] @ [0.9])"
    by (simp add: FRAME_SKIP_def)
  have 3: "THRESHOLD < 0.9" by (simp add: THRESHOLD_def)
  have a: "num_field (analyze_texture ''v'' [Scores [0.2, 0.7]]) ''fake_ratio'' = Some (1 / 2)"
    using analyze_texture_fake_ratio [OF 1, of "''v''"]
    by (simp add: fake_ratio_count THRESHOLD_def)
  from fake_ratio_monotone [OF 1 2 3, of "''v''" "''v''"]
  have "num_field (analyze_texture ''v'' [Scores [0.2, 0.7, 0.9]]) ''fake_ratio'' =
      Some (fake_ratio_of ([0.2, 0.7] @ [0.9]))"
    by auto
  then have b: "num_field (analyze_texture ''v'' [Scores [0.2, 0.7, 0.9]]) ''fake_ratio'' = Some (2 / 3)"
    by (simp add: fake_ratio_count THRESHOLD_def)
  from a b show ?thesis by blast
qed

text \<open>
  C10. For a successful texture analysis whose scores all lie in [0,1] the wrapper's
  confidence lies in [0,1]; when it predicts REAL (\<open>avg_score\<close> at least 0.8) the
  confidence \<open>1 - avg_score\<close> is at most 0.2, and when it predicts FAKE the confidence
  \<open>avg_score\<close> is below 0.8; every value from 0 up to, but below, 0.8 is the confidence
  of some FAKE verdict.
\<close>

theorem texture_confidence_bounds:
  "(texture_loop (videos p) 0 [] = Inr scores \<and> scores \<noteq> [] \<and>
      (\<forall>s \<in> set scores. 0 \<le> s \<and> s \<le> 1) \<longrightarrow>
      (\<exists>c. confidence (texture_analyze_video (texture_detector videos) p) = PFloat c \<and>
           0 \<le> c \<and> c \<le> 1 \<and>
           (prediction (texture_analyze_video (texture_detector videos) p) = Some REAL \<and>
              0.8 \<le> mean scores \<and> c = 1 - mean scores \<and> c \<le> 0.2
            \<or> prediction (texture_analyze_video (texture_detector videos) p) = Some FAKE \<and>
              mean scores < 0.8 \<and> c = mean scores \<and> c < 0.8))) \<and>
   (0 \<le> a \<and> a < 0.8 \<longrightarrow>
      prediction (texture_analyze_video (texture_detector (one_frame [a])) p) = Some FAKE \<and>
      confidence (texture_analyze_video (texture_detector (one_frame [a])) p) = PFloat a)"
proof (intro conjI impI)
  assume A: "texture_loop (videos p) 0 [] = Inr scores \<and> scores \<noteq> [] \<and>
      (\<forall>s \<in> set scores. 0 \<le> s \<and> s \<le> 1)"
  then have loop: "texture_loop (videos p) 0 [] = Inr scores" and ne: "scores \<noteq> []"
    and rng: "\<forall>s \<in> set scores. 0 \<le> s \<and> s \<le> 1"
    by blast+
  note V = texture_verdict [of videos p scores, OF loop ne]
  note M = mean_bounds [OF ne rng]
  show "\<exists>c. confidence (texture_analyze_video (texture_detector videos) p) = PFloat c \<and>
           0 \<le> c \<and> c \<le> 1 \<and>
           (prediction (texture_analyze_video (texture_detector videos) p) = Some REAL \<and>
              0.8 \<le> mean scores \<and> c = 1 - mean scores \<and> c \<le> 0.2
            \<or> prediction (texture_analyze_video (texture_detector videos) p) = Some FAKE \<and>
              mean scores < 0.8 \<and> c = mean scores \<and> c < 0.8)"
  proof (cases "mean scores < 0.8")
    case True
    with V M show ?thesis by simp
  next
    case False
    with V M show ?thesis by simp
  qed
next
  assume a: "0 \<le> a \<and> a < 0.8"
  have loop: "texture_loop (one_frame [a] p) 0 [] = Inr [a]"
    by (simp add: one_frame_def FRAME_SKIP_def)
  have m: "mean [a] = a" by (simp add: mean_def)
  from texture_verdict [of "one_frame [a]" p "[a]", OF loop] a m
  show "prediction (texture_analyze_video (texture_detector (one_frame [a])) p) = Some FAKE"
    by simp
  from texture_verdict [of "one_frame [a]" p "[a]", OF loop] a m
  show "confidence (texture_analyze_video (texture_detector (one_frame [a])) p) = PFloat a"
    by simp
qed

text \<open>C10 at the scores 0.9, 1 (REAL, confidence 0.05) and at the score 0.79 (FAKE).\<close>

theorem texture_confidence_bounds_witness:
  "confidence (texture_analyze_video (texture_detector (one_frame [0.9, 1])) ''v.mp4'') = PFloat 0.05 \<and>
   prediction (texture_analyze_video (texture_detector (one_frame [0.9, 1])) ''v.mp4'') = Some REAL \<and>
   prediction (texture_analyze_video (texture_detector (one_frame [0.79])) ''v.mp4'') = Some FAKE \<and>
   confidence (texture_analyze_video (texture_detector (one_frame [0.79])) ''v.mp4'') = PFloat 0.79"
proof -
  have pre: "texture_loop (one_frame [0.9, 1] ''v.mp4'') 0 [] = Inr [0.9, 1] \<and> [0.9, 1 :: real] \<noteq> [] \<and>
      (\<forall>s \<in> set [0.9, 1 :: real]. 0 \<le> s \<and> s \<le> 1)"
    by (simp add: one_frame_def FRAME_SKIP_def)
  have m: "mean [0.9, 1] = 0.95" by (simp add: mean_def)
  note T = texture_confidence_bounds [of "one_frame [0.9, 1]" "''v.mp4''" "[0.9, 1]" "0.79"]
  from T [THEN conjunct1, THEN mp, OF pre] obtain c
    where c: "confidence (texture_analyze_video (texture_detector (one_frame [0.9, 1])) ''v.mp4'') = PFloat c"
    and d: "prediction (texture_analyze_video (texture_detector (one_frame [0.9, 1])) ''v.mp4'') = Some REAL \<and>
              0.8 \<le> mean [0.9, 1] \<and> c = 1 - mean [0.9, 1] \<and> c \<le> 0.2
            \<or> prediction (texture_analyze_video (texture_detector (one_frame [0.9, 1])) ''v.mp4'') = Some FAKE \<and>
              mean [0.9, 1] < 0.8 \<and> c = mean [0.9, 1] \<and> c < 0.8"
    by (elim exE conjE)
  from d have r: "prediction (texture_analyze_video (texture_detector (one_frame [0.9, 1])) ''v.mp4'') = Some REAL"
    and cv: "c = 0.05"
    unfolding m by auto
  have "(0::real) \<le> 0.79 \<and> (0.79::real) < 0.8" by simp
  with T [THEN conjunct2] have f:
    "prediction (texture_analyze_video (texture_detector (one_frame [0.79])) ''v.mp4'') = Some FAKE \<and>
     confidence (texture_analyze_video (texture_detector (one_frame [0.79])) ''v.mp4'') = PFloat 0.79"
    by blast
  from c cv r f show ?thesis by blast
qed

text \<open>
  C5 (as amended). Every result of the blink and headpose detectors satisfies: if
  \<open>success\<close> is false then it has no metrics and is not suspicious, and its reasons are
  non-empty if and only if it is suspicious; and these detectors return a result on every
  video whose frames raise no exception (with a non-zero frame interval). A result of the
  texture detector is never suspicious and has no reasons; when its \<open>success\<close> is false
  its metrics are the zero-valued \<open>frames_analyzed\<close>, \<open>fake_ratio\<close> and \<open>avg_score\<close> of
  its initial result.
\<close>

theorem detector_result_invariants:
  "(analyze_blink video max_frames frame_interval = Inr d \<longrightarrow> detector_result_invariant d) \<and>
   (list_all no_throw frames \<and> frame_interval \<noteq> 0 \<longrightarrow>
      (\<exists>r. analyze_blink (Some frames) max_frames frame_interval = Inr r)) \<and>
   (analyze_headpose video' save_debug max_debug_frames = Inr d' \<longrightarrow>
      detector_result_invariant d') \<and>
   (list_all no_throw frames' \<longrightarrow>
      (\<exists>r. analyze_headpose (Some frames') save_debug max_debug_frames = Inr r)) \<and>
   \<not> suspicious_of (analyze_texture p tframes) \<and>
   reasons_of (analyze_texture p tframes) = [] \<and>
   (\<not> success_of (analyze_texture p tframes) \<longrightarrow>
      metrics_of (analyze_texture p tframes) = zero_metrics)"
  using analyze_blink_invariant [of video max_frames frame_interval d]
    analyze_blink_returns [of frames frame_interval max_frames]
    analyze_headpose_invariant [of video' save_debug max_debug_frames d']
    analyze_headpose_returns [of frames' save_debug max_debug_frames]
    analyze_texture_views [of p tframes]
  by blast

text \<open>C5 at one-frame videos of the blink and headpose detectors and at a texture video
  without frames.\<close>

theorem detector_result_invariants_witness:
  "detector_result_invariant blink_one_frame \<and> detector_result_invariant headpose_one_frame \<and>
   metrics_of (analyze_texture ''v.mp4'' []) = zero_metrics"
proof -
  note T = detector_result_invariants [of "Some [Face 0.3]" 100 1 blink_one_frame "[]"
      "Some [Face still_face]" True 100 headpose_one_frame "[]" "''v.mp4''" "[]"]
  have f: "\<not> success_of (analyze_texture ''v.mp4'' [])"
    by (simp add: analyze_texture_def success_of_def get_default_def)
  from T blink_one_frame_run headpose_one_frame_run f show ?thesis
    by blast
qed

text \<open>
  C5 as stated fails for the texture detector: the result of a video without faces has
  \<open>success\<close> false and three metrics.
\<close>

theorem texture_failure_metrics_counterexample:
  "\<not> success_of (analyze_texture ''v.mp4'' []) \<and>
   metrics_of (analyze_texture ''v.mp4'' []) =
     [(''frames_analyzed'', PInt 0), (''fake_ratio'', PInt 0), (''avg_score'', PInt 0)] \<and>
   \<not> detector_result_invariant (analyze_texture ''v.mp4'' [])"
  by (simp add: analyze_texture_def success_of_def get_default_def metrics_of_def
      detector_result_invariant_def)


text \<open>
  C9 at the example dataset, on a file system without other files, when the output of the
  tasks cannot be parsed: the blink evaluator persists \<open>blink_results.json\<close> and the
  orchestrator reads \<open>blink_evaluation.json\<close>, so the blink slot is null; likewise for
  headpose; for texture the file read is the file persisted, and the slot holds the report.
  Each evaluator runs with its detector.
\<close>

theorem fallback_file_mismatch:
  "(\<exists>rep. persisted (blink_main two_dirs (blink_detector blink_videos) ''t'') =
      Some (''blink_results.json'', rep)) \<and>
   fallback_file ''blink'' = ''blink_evaluation.json'' \<and>
   run_detector quiet_spawn
     (files_after (blink_main two_dirs (blink_detector blink_videos) ''t'') no_files)
     ''blink'' PY_VENV ''evaluate_blink.py'' = Inr (''blink'', None) \<and>
   (\<exists>rep. persisted (headpose_main two_dirs (headpose_detector headpose_videos) ''t'') =
      Some (''headpose_results.json'', rep)) \<and>
   fallback_file ''headpose'' = ''headpose_evaluation.json'' \<and>
   run_detector quiet_spawn
     (files_after (headpose_main two_dirs (headpose_detector headpose_videos) ''t'') no_files)
     ''headpose'' PY_VENV ''evaluate_headpose.py'' = Inr (''headpose'', None) \<and>
   (\<exists>rep. persisted (texture_main two_dirs (texture_detector texture_videos) ''t'') =
      Some (''texture_evaluation.json'', rep) \<and>
      run_detector quiet_spawn
        (files_after (texture_main two_dirs (texture_detector texture_videos) ''t'') no_files)
        ''texture'' PY_VENV ''evaluate_texture.py'' = Inr (''texture'', Some rep))"
proof -
  have b: "persisted (blink_main two_dirs (blink_detector blink_videos) ''t'') =
      Some (''blink_results.json'',
            \<lparr>timestamp = ''t'', summary = Accuracy_Only 2 50, results = ex_results\<rparr>)"
    by (simp add: blink_ex_run reported_def)
  have h: "persisted (headpose_main two_dirs (headpose_detector headpose_videos) ''t'') =
      Some (''headpose_results.json'',
            \<lparr>timestamp = ''t'', summary = Accuracy_Only 2 0, results = headpose_ex_results\<rparr>)"
    by (simp add: headpose_ex_run reported_def)
  have t: "persisted (texture_main two_dirs (texture_detector texture_videos) ''t'') =
      Some (''texture_evaluation.json'',
            \<lparr>timestamp = ''t'',
              summary = Full_Metrics 100 100 100 100 \<lparr>TP = 1, TN = 0, FP = 0, FN = 0\<rparr>,
              results = texture_ex_results\<rparr>)"
    by (simp add: texture_ex_run reported_def)
  have fb: "fallback_file ''blink'' = ''blink_evaluation.json''"
    and fh: "fallback_file ''headpose'' = ''headpose_evaluation.json''"
    and ft: "fallback_file ''texture'' = ''texture_evaluation.json''"
    by (simp_all add: fallback_file_def)
  have 1: "run_detector quiet_spawn
     (files_after (blink_main two_dirs (blink_detector blink_videos) ''t'') no_files)
     ''blink'' PY_VENV ''evaluate_blink.py'' = Inr (''blink'', None)"
    by (simp add: run_detector_def quiet_spawn_def files_after_def b fb no_files_def)
  have 2: "run_detector quiet_spawn
     (files_after (headpose_main two_dirs (headpose_detector headpose_videos) ''t'') no_files)
     ''headpose'' PY_VENV ''evaluate_headpose.py'' = Inr (''headpose'', None)"
    by (simp add: run_detector_def quiet_spawn_def files_after_def h fh no_files_def)
  have 3: "run_detector quiet_spawn
        (files_after (texture_main two_dirs (texture_detector texture_videos) ''t'') no_files)
        ''texture'' PY_VENV ''evaluate_texture.py'' =
      Inr (''texture'',
           Some \<lparr>timestamp = ''t'',
                  summary = Full_Metrics 100 100 100 100 \<lparr>TP = 1, TN = 0, FP = 0, FN = 0\<rparr>,
                  results = texture_ex_results\<rparr>)"
    by (simp add: run_detector_def quiet_spawn_def files_after_def t ft)
  from b fb 1 h fh 2 t 3 show ?thesis
    by (intro conjI exI) 
qed

end
